theory Spec2Isabelle
  imports
    Complex_Main
    "HOL-Library.Word"
    "HOL-Library.Signed_Division"
    "HOL-Library.Log_Nat"
begin

unbundle bit_operations_syntax

section \<open>Machine integers of \<open>arithmetic.cc\<close>\<close>

text \<open>
  The fixed-width integer types of the source are words; a signed type is read with
  \<^const>\<open>sint\<close>, the unsigned one with \<^const>\<open>uint\<close>. Widening a signed value
  (\<open>static_cast<int32_t>(x)\<close>) is \<^const>\<open>scast\<close>, narrowing
  (\<open>static_cast<int8_t>(r)\<close>) keeps the low bits and is \<^const>\<open>ucast\<close>.
\<close>

type_synonym int8_t = "8 word"
type_synonym int16_t = "16 word"
type_synonym int32_t = "32 word"
type_synonym int64_t = "64 word"
type_synonym uint8_t = "8 word"

text \<open>
  \<open>std::div(x, y)\<close> returns the quotient truncated towards zero and the remainder
  with \<open>quot * y + rem = x\<close>. Its behaviour is undefined when \<open>y\<close> is zero or the
  quotient is not representable (the most negative value divided by \<open>-1\<close>); the model
  returns \<open>None\<close> there.
\<close>

record 'a div_t =
  quot :: 'a
  rem :: 'a

definition representable :: "'a::len itself \<Rightarrow> int \<Rightarrow> bool" where
  "representable w k \<longleftrightarrow> - (2 ^ (LENGTH('a) - 1)) \<le> k \<and> k < 2 ^ (LENGTH('a) - 1)"

definition std_div :: "'a::len word \<Rightarrow> 'a word \<Rightarrow> 'a word div_t option" where
  "std_div x y =
     (if y = 0 then None
      else if \<not> representable TYPE('a) (sint x sdiv sint y) then None
      else Some \<lparr>quot = word_of_int (sint x sdiv sint y),
                 rem = word_of_int (sint x smod sint y)\<rparr>)"

section \<open>The floor-division primitive on integers\<close>

text \<open>
  \<open>int32_t FloorDivide(int32_t x, int32_t y)\<close>: zero for a zero divisor, otherwise
  \<open>div.quot - ((y >= 0 ? div.rem : -div.rem) < 0 ? 1 : 0)\<close>. The negation and the
  subtraction are those of the words; \<open>floor_rule_word\<close> and \<open>representable_div\<close>
  below show that neither wraps once \<open>std::div\<close> has returned.
\<close>

definition FloorDivide_int32 :: "int32_t \<Rightarrow> int32_t \<Rightarrow> int32_t option" where
  "FloorDivide_int32 x y =
     (if y = 0 then Some 0
      else case std_div x y of
             None \<Rightarrow> None
           | Some d \<Rightarrow>
               Some (quot d - (if (if 0 \<le>s y then rem d else - rem d) <s 0 then 1 else 0)))"

text \<open>\<open>int64_t FloorDivide(int64_t x, int64_t y)\<close>: the same body at 64 bits.\<close>

definition FloorDivide_int64 :: "int64_t \<Rightarrow> int64_t \<Rightarrow> int64_t option" where
  "FloorDivide_int64 x y =
     (if y = 0 then Some 0
      else case std_div x y of
             None \<Rightarrow> None
           | Some d \<Rightarrow>
               Some (quot d - (if (if 0 \<le>s y then rem d else - rem d) <s 0 then 1 else 0)))"

text \<open>
  \<open>int8_t FloorDivide(int8_t x, int8_t y)\<close> and the \<open>int16_t\<close> overload:
  \<open>static_cast<int8_t>(FloorDivide(static_cast<int32_t>(x), static_cast<int32_t>(y)))\<close>.
  The narrowing cast keeps the value modulo \<open>2\<^sup>8\<close> (\<open>2\<^sup>1\<^sup>6\<close>).
\<close>

definition FloorDivide_int8 :: "int8_t \<Rightarrow> int8_t \<Rightarrow> int8_t option" where
  "FloorDivide_int8 x y =
     map_option (ucast :: int32_t \<Rightarrow> int8_t)
       (FloorDivide_int32 (scast x :: int32_t) (scast y :: int32_t))"

definition FloorDivide_int16 :: "int16_t \<Rightarrow> int16_t \<Rightarrow> int16_t option" where
  "FloorDivide_int16 x y =
     map_option (ucast :: int32_t \<Rightarrow> int16_t)
       (FloorDivide_int32 (scast x :: int32_t) (scast y :: int32_t))"

text \<open>\<open>uint8_t FloorDivide(uint8_t x, uint8_t y)\<close>: zero for a zero divisor, else \<open>x / y\<close>.\<close>

definition FloorDivide_uint8 :: "uint8_t \<Rightarrow> uint8_t \<Rightarrow> uint8_t option" where
  "FloorDivide_uint8 x y = (if y = 0 then Some 0 else Some (x div y))"

text \<open>
  The spec's wording of the rule for the signed types, on the integers: zero for a zero
  divisor; otherwise the truncating quotient and remainder, and one subtracted from the
  quotient if the remainder is not zero and has the sign opposite to the divisor's.
\<close>

definition spec_signed_rule :: "int \<Rightarrow> int \<Rightarrow> int" where
  "spec_signed_rule a b =
     (if b = 0 then 0
      else if a smod b \<noteq> 0 \<and> (a smod b < 0) \<noteq> (b < 0) then a sdiv b - 1
      else a sdiv b)"

section \<open>Floating-point values\<close>

text \<open>
  A binary floating-point value is a NaN, an infinity with its sign, or a finite value
  with its sign (\<open>True\<close> for negative) and its magnitude, a non-negative rational; the
  two zeros are \<open>Finite False 0\<close> and \<open>Finite True 0\<close>. A format is its precision
  (bits of the significand, the hidden bit included) and its largest exponent:
  \<open>float\<close> is binary32, \<open>double\<close> is binary64, \<open>chainerx::Float16\<close> is binary16.
\<close>

datatype fp = NaN | Infinity bool | Finite bool rat

record format =
  prec :: nat
  emax :: int

definition binary16 :: format where "binary16 = \<lparr>prec = 11, emax = 15\<rparr>"
definition binary32 :: format where "binary32 = \<lparr>prec = 24, emax = 127\<rparr>"
definition binary64 :: format where "binary64 = \<lparr>prec = 53, emax = 1023\<rparr>"

text \<open>\<open>ilog2 a\<close> is the exponent \<open>e\<close> with \<open>2\<^sup>e \<le> a < 2\<^sup>e\<^sup>+\<^sup>1\<close>, for \<open>a > 0\<close>.\<close>

definition ilog2 :: "rat \<Rightarrow> int" where
  "ilog2 a = (case quotient_of a of (n, d) \<Rightarrow>
     (let k = bitlen n - bitlen d in if 2 powi k \<le> a then k else k - 1))"

text \<open>Rounding to the nearest integer, a tie to the even one.\<close>

definition round_even :: "rat \<Rightarrow> int" where
  "round_even a = (let f = \<lfloor>a\<rfloor>; r = a - of_int f in
     if r < 1 / 2 then f else if 1 / 2 < r then f + 1 else if even f then f else f + 1)"

text \<open>
  \<open>rnd fmt s a\<close> rounds the exact magnitude \<open>a\<close> of a result with sign \<open>s\<close> to the
  format, to nearest with ties to even (the default rounding mode): the unit in the
  last place is \<open>2\<^sup>e\<^sup>-\<^sup>p\<^sup>+\<^sup>1\<close> for the exponent \<open>e\<close> of \<open>a\<close>, not below the smallest
  exponent \<open>1 - emax\<close> (subnormal values), and a rounded magnitude of \<open>2\<^sup>e\<^sup>m\<^sup>a\<^sup>x\<^sup>+\<^sup>1\<close>
  overflows to the infinity.
\<close>

definition rnd :: "format \<Rightarrow> bool \<Rightarrow> rat \<Rightarrow> fp" where
  "rnd fmt s a =
     (if a = 0 then Finite s 0
      else let e = max (ilog2 a) (1 - emax fmt);
               u = 2 powi (e - int (prec fmt) + 1);
               r = of_int (round_even (a / u)) * u
           in if 2 powi (emax fmt + 1) \<le> r then Infinity s else Finite s r)"

definition signed_val :: "bool \<Rightarrow> rat \<Rightarrow> rat" where
  "signed_val s m = (if s then - m else m)"

text \<open>
  Addition: a NaN operand or infinities of opposite signs give NaN; an exact zero sum
  is \<open>-0\<close> only when both operands are negative; any other sum is rounded.
\<close>

fun fadd :: "format \<Rightarrow> fp \<Rightarrow> fp \<Rightarrow> fp" where
  "fadd fmt NaN y = NaN"
| "fadd fmt x NaN = NaN"
| "fadd fmt (Infinity s) (Infinity t) = (if s = t then Infinity s else NaN)"
| "fadd fmt (Infinity s) (Finite t b) = Infinity s"
| "fadd fmt (Finite s a) (Infinity t) = Infinity t"
| "fadd fmt (Finite s a) (Finite t b) =
     (let q = signed_val s a + signed_val t b
      in if q = 0 then Finite (s \<and> t) 0 else rnd fmt (q < 0) \<bar>q\<bar>)"

fun fneg :: "fp \<Rightarrow> fp" where
  "fneg NaN = NaN"
| "fneg (Infinity s) = Infinity (\<not> s)"
| "fneg (Finite s a) = Finite (\<not> s) a"

text \<open>The operator \<open>-\<close>: \<open>x - y\<close> is \<open>x + (-y)\<close>.\<close>

definition fsub :: "format \<Rightarrow> fp \<Rightarrow> fp \<Rightarrow> fp" where
  "fsub fmt x y = fadd fmt x (fneg y)"

text \<open>
  The operator \<open>/\<close>: NaN for a NaN operand, for \<open>0 / 0\<close> and for two infinities; a
  non-zero value divided by a zero is an infinity; the sign is the exclusive or of the
  operands' signs.
\<close>

fun fdiv :: "format \<Rightarrow> fp \<Rightarrow> fp \<Rightarrow> fp" where
  "fdiv fmt NaN y = NaN"
| "fdiv fmt x NaN = NaN"
| "fdiv fmt (Infinity s) (Infinity t) = NaN"
| "fdiv fmt (Infinity s) (Finite t b) = Infinity (s \<noteq> t)"
| "fdiv fmt (Finite s a) (Infinity t) = Finite (s \<noteq> t) 0"
| "fdiv fmt (Finite s a) (Finite t b) =
     (if b = 0 then (if a = 0 then NaN else Infinity (s \<noteq> t))
      else rnd fmt (s \<noteq> t) (a / b))"

text \<open>
  \<open>std::fmod(x, y)\<close>: NaN when an operand is NaN, when \<open>x\<close> is infinite or when \<open>y\<close>
  is a zero; \<open>x\<close> itself when \<open>y\<close> is infinite; otherwise the exact value
  \<open>x - n * y\<close> for \<open>n\<close> the quotient \<open>x / y\<close> truncated towards zero, with the sign
  of \<open>x\<close>. The result is exact, so nothing is rounded.
\<close>

fun fmod :: "fp \<Rightarrow> fp \<Rightarrow> fp" where
  "fmod NaN y = NaN"
| "fmod x NaN = NaN"
| "fmod (Infinity s) y = NaN"
| "fmod (Finite s a) (Infinity t) = Finite s a"
| "fmod (Finite s a) (Finite t b) =
     (if b = 0 then NaN else Finite s (a - b * of_int \<lfloor>a / b\<rfloor>))"

text \<open>The operator \<open><\<close>: false when an operand is NaN; the two zeros are equal.\<close>

fun fless :: "fp \<Rightarrow> fp \<Rightarrow> bool" where
  "fless NaN y = False"
| "fless x NaN = False"
| "fless (Infinity s) (Infinity t) = (s \<and> \<not> t)"
| "fless (Infinity s) (Finite t b) = s"
| "fless (Finite s a) (Infinity t) = (\<not> t)"
| "fless (Finite s a) (Finite t b) = (signed_val s a < signed_val t b)"

text \<open>Conversion of an \<open>int\<close> to the format (the literals \<open>0\<close> and \<open>1\<close> of the source).\<close>

definition fp_of_int :: "format \<Rightarrow> int \<Rightarrow> fp" where
  "fp_of_int fmt k = rnd fmt (k < 0) \<bar>of_int k\<bar>"

section \<open>The floor-division primitive on floating-point values\<close>

text \<open>
  \<open>float FloorDivide(float x, float y)\<close>:
  \<open>rem = std::fmod(x, y)\<close>, then
  \<open>(x - rem) / y - ((rem < 0 && y > 0) || (rem > 0 && y < 0) ? 1 : 0)\<close>.
\<close>

definition FloorDivide_float :: "fp \<Rightarrow> fp \<Rightarrow> fp" where
  "FloorDivide_float x y =
     (let rem = fmod x y in
      fsub binary32 (fdiv binary32 (fsub binary32 x rem) y)
        (fp_of_int binary32
           (if (fless rem (fp_of_int binary32 0) \<and> fless (fp_of_int binary32 0) y) \<or>
               (fless (fp_of_int binary32 0) rem \<and> fless y (fp_of_int binary32 0))
            then 1 else 0)))"

text \<open>\<open>double FloorDivide(double x, double y)\<close>: the same body on \<open>double\<close>.\<close>

definition FloorDivide_double :: "fp \<Rightarrow> fp \<Rightarrow> fp" where
  "FloorDivide_double x y =
     (let rem = fmod x y in
      fsub binary64 (fdiv binary64 (fsub binary64 x rem) y)
        (fp_of_int binary64
           (if (fless rem (fp_of_int binary64 0) \<and> fless (fp_of_int binary64 0) y) \<or>
               (fless (fp_of_int binary64 0) rem \<and> fless y (fp_of_int binary64 0))
            then 1 else 0)))"

text \<open>
  Modelled from the spec: \<open>chainerx/float16.h\<close> is not among the sources. The spec has
  half precision promoted to 32-bit float for the computation and the result narrowed:
  \<open>static_cast<float>(h)\<close> keeps the value (every binary16 value is a binary32 value),
  and the constructor \<open>Float16{f}\<close> rounds a \<open>float\<close> to binary16.
\<close>

definition Float16_to_float :: "fp \<Rightarrow> fp" where
  "Float16_to_float h = h"

fun Float16_of_float :: "fp \<Rightarrow> fp" where
  "Float16_of_float NaN = NaN"
| "Float16_of_float (Infinity s) = Infinity s"
| "Float16_of_float (Finite s a) = rnd binary16 s a"

text \<open>
  \<open>Float16 FloorDivide(Float16 x, Float16 y)\<close>:
  \<open>Float16{FloorDivide(static_cast<float>(x), static_cast<float>(y))}\<close>.
\<close>

definition FloorDivide_float16 :: "fp \<Rightarrow> fp \<Rightarrow> fp" where
  "FloorDivide_float16 x y =
     Float16_of_float (FloorDivide_float (Float16_to_float x) (Float16_to_float y))"

text \<open>The magnitude of a finite value is not negative.\<close>

fun wf_fp :: "fp \<Rightarrow> bool" where
  "wf_fp (Finite s a) = (0 \<le> a)"
| "wf_fp x = True"

text \<open>
  The spec's wording of the condition for subtracting one: the remainder is negative
  with a positive divisor, or positive with a negative divisor.
\<close>

definition sign_disagrees :: "fp \<Rightarrow> fp \<Rightarrow> bool" where
  "sign_disagrees r y \<longleftrightarrow>
     (fless r (Finite False 0) \<and> fless (Finite False 0) y) \<or>
     (fless (Finite False 0) r \<and> fless y (Finite False 0))"

section \<open>Element types, values, arrays and scalars\<close>

text \<open>
  Modelled from the spec: \<open>chainerx/dtype.h\<close> is not among the sources. The spec lists
  eight numeric element types and tells the set of all types, which the full visitor
  \<open>VisitDtype\<close> runs over, from the set of the numeric types; the two sets differ in
  the one non-numeric element type, \<open>Bool\<close>.
\<close>

datatype Dtype = Bool | Int8 | Int16 | Int32 | Int64 | UInt8 | Float16 | Float32 | Float64

text \<open>An element of a buffer, or the value of a scalar, with its element type.\<close>

datatype element =
    BoolV bool
  | Int8V int8_t
  | Int16V int16_t
  | Int32V int32_t
  | Int64V int64_t
  | UInt8V uint8_t
  | Float16V fp
  | Float32V fp
  | Float64V fp

fun dtype_of :: "element \<Rightarrow> Dtype" where
  "dtype_of (BoolV b) = Bool"
| "dtype_of (Int8V x) = Int8"
| "dtype_of (Int16V x) = Int16"
| "dtype_of (Int32V x) = Int32"
| "dtype_of (Int64V x) = Int64"
| "dtype_of (UInt8V x) = UInt8"
| "dtype_of (Float16V x) = Float16"
| "dtype_of (Float32V x) = Float32"
| "dtype_of (Float64V x) = Float64"

text \<open>
  Modelled from the spec: \<open>chainerx/array.h\<close> and \<open>chainerx/device.h\<close> are not among
  the sources. An array is its element type, the device it resides on and its elements
  in iteration order.
\<close>

record Array =
  dtype :: Dtype
  device :: nat
  elems :: "element list"

text \<open>
  The ways a kernel call fails. The contract violations of the spec: the devices are
  not compatible; the element type is outside the set of the visitor, or a buffer is
  not of the type it is read at; the buffers differ in length. And undefined behaviour:
  \<open>std::div\<close> with an unrepresentable quotient is reached.
\<close>

datatype contract = IncompatibleDevices | DtypeOutsideSubset | ShapeMismatch

datatype error = ContractViolation contract | UndefinedBehavior

text \<open>
  The collaborators whose code is not among the sources and on whose results no property
  here depends are parameters: \<open>Array::AsType\<close>, the four operations of
  \<open>ArithmeticOps<T>\<close> (pure functions of two elements, by the spec) and the conversion
  of a scalar to or from a floating-point type.
\<close>

record externals =
  AsType :: "Array \<Rightarrow> Dtype \<Rightarrow> Array"
  ArithmeticOps_Add :: "element \<Rightarrow> element \<Rightarrow> element"
  ArithmeticOps_Subtract :: "element \<Rightarrow> element \<Rightarrow> element"
  ArithmeticOps_Multiply :: "element \<Rightarrow> element \<Rightarrow> element"
  ArithmeticOps_Divide :: "element \<Rightarrow> element \<Rightarrow> element"
  FloatingCast :: "element \<Rightarrow> Dtype \<Rightarrow> element"

text \<open>
  Modelled from the spec: \<open>chainerx/scalar.h\<close> is not among the sources. A scalar is a
  single value with a nominal type, converted on demand to any element type by the
  native conversion: a value of the target type is unchanged; between \<open>bool\<close> and the
  integer types a non-zero value is \<open>true\<close>, \<open>true\<close> is \<open>1\<close>, and an integer keeps
  its value modulo the width of the target.
\<close>

type_synonym Scalar = element

fun integral_value :: "element \<Rightarrow> int option" where
  "integral_value (BoolV b) = Some (if b then 1 else 0)"
| "integral_value (Int8V x) = Some (sint x)"
| "integral_value (Int16V x) = Some (sint x)"
| "integral_value (Int32V x) = Some (sint x)"
| "integral_value (Int64V x) = Some (sint x)"
| "integral_value (UInt8V x) = Some (uint x)"
| "integral_value v = None"

fun of_integral :: "Dtype \<Rightarrow> int \<Rightarrow> element option" where
  "of_integral Bool k = Some (BoolV (k \<noteq> 0))"
| "of_integral Int8 k = Some (Int8V (word_of_int k))"
| "of_integral Int16 k = Some (Int16V (word_of_int k))"
| "of_integral Int32 k = Some (Int32V (word_of_int k))"
| "of_integral Int64 k = Some (Int64V (word_of_int k))"
| "of_integral UInt8 k = Some (UInt8V (word_of_int k))"
| "of_integral T k = None"

definition Scalar_cast :: "externals \<Rightarrow> Dtype \<Rightarrow> Scalar \<Rightarrow> element" where
  "Scalar_cast ext T s =
     (if dtype_of s = T then s
      else case integral_value s of
             None \<Rightarrow> FloatingCast ext s T
           | Some k \<Rightarrow> (case of_integral T k of
                          None \<Rightarrow> FloatingCast ext s T
                        | Some v \<Rightarrow> v))"

section \<open>Dispatch on the element type\<close>

text \<open>
  Modelled from the spec: the visitors of \<open>chainerx/dtype.h\<close> are not among the
  sources. A visitor calls the function with the element type when the type is in the
  visitor's set (all types, the numeric types, the integral types) and fails otherwise.
\<close>

fun VisitDtype :: "Dtype \<Rightarrow> (Dtype \<Rightarrow> error + 'a) \<Rightarrow> error + 'a" where
  "VisitDtype T f = f T"

fun VisitNumericDtype :: "Dtype \<Rightarrow> (Dtype \<Rightarrow> error + 'a) \<Rightarrow> error + 'a" where
  "VisitNumericDtype Bool f = Inl (ContractViolation DtypeOutsideSubset)"
| "VisitNumericDtype T f = f T"

fun VisitIntegralDtype :: "Dtype \<Rightarrow> (Dtype \<Rightarrow> error + 'a) \<Rightarrow> error + 'a" where
  "VisitIntegralDtype Int8 f = f Int8"
| "VisitIntegralDtype Int16 f = f Int16"
| "VisitIntegralDtype Int32 f = f Int32"
| "VisitIntegralDtype Int64 f = f Int64"
| "VisitIntegralDtype UInt8 f = f UInt8"
| "VisitIntegralDtype T f = Inl (ContractViolation DtypeOutsideSubset)"

section \<open>Element-wise execution\<close>

text \<open>
  Modelled from the spec: \<open>Device::CheckDevicesCompatible\<close> is not among the sources.
  The check fails unless every array resides on the device.
\<close>

definition CheckDevicesCompatible :: "nat \<Rightarrow> Array list \<Rightarrow> error + unit" where
  "CheckDevicesCompatible d as = (if list_all (\<lambda>a. device a = d) as then Inr () else Inl (ContractViolation IncompatibleDevices))"

text \<open>The results of the per-element calls in order, or the first failure.\<close>

fun collect :: "(error + 'a) list \<Rightarrow> error + 'a list" where
  "collect [] = Inr []"
| "collect (Inl e # rs) = Inl e"
| "collect (Inr v # rs) = (case collect rs of Inl e \<Rightarrow> Inl e | Inr vs \<Rightarrow> Inr (v # vs))"

text \<open>
  Modelled from the spec: \<open>chainerx/native/elementwise.h\<close> is not among the sources.
  \<open>Elementwise<const T, T>(impl, x, out)\<close> reads \<open>x\<close> and writes \<open>out\<close> at the type
  \<open>T\<close>, both of the same shape, and calls \<open>impl\<close> once per index;
  \<open>Elementwise<const T, const T, T>(impl, x1, x2, out)\<close> does so with two inputs.
\<close>

definition Elementwise1 ::
  "Dtype \<Rightarrow> (element \<Rightarrow> error + element) \<Rightarrow> Array \<Rightarrow> Array \<Rightarrow> error + Array" where
  "Elementwise1 T impl x out =
     (if dtype x = T \<and> dtype out = T then
        if length (elems x) = length (elems out) then
          case collect (map impl (elems x)) of
            Inl e \<Rightarrow> Inl e
          | Inr vs \<Rightarrow> Inr (out\<lparr>elems := vs\<rparr>)
        else Inl (ContractViolation ShapeMismatch)
      else Inl (ContractViolation DtypeOutsideSubset))"

definition Elementwise2 ::
  "Dtype \<Rightarrow> (element \<Rightarrow> element \<Rightarrow> error + element) \<Rightarrow> Array \<Rightarrow> Array \<Rightarrow> Array \<Rightarrow> error + Array" where
  "Elementwise2 T impl x1 x2 out =
     (if dtype x1 = T \<and> dtype x2 = T \<and> dtype out = T then
        if length (elems x1) = length (elems out) \<and> length (elems x2) = length (elems out) then
          case collect (map (\<lambda>(a, b). impl a b) (zip (elems x1) (elems x2))) of
            Inl e \<Rightarrow> Inl e
          | Inr vs \<Rightarrow> Inr (out\<lparr>elems := vs\<rparr>)
        else Inl (ContractViolation ShapeMismatch)
      else Inl (ContractViolation DtypeOutsideSubset))"

section \<open>The per-element operations\<close>

text \<open>
  \<open>native::FloorDivide(x1, x2)\<close> at the element type \<open>T\<close> of the dispatch: the
  overload of that type. There is no overload for \<open>bool\<close>.
\<close>

definition lift_int :: "('a \<Rightarrow> element) \<Rightarrow> 'a option \<Rightarrow> error + element" where
  "lift_int c r = (case r of None \<Rightarrow> Inl UndefinedBehavior | Some v \<Rightarrow> Inr (c v))"

fun FloorDivide_element :: "element \<Rightarrow> element \<Rightarrow> error + element" where
  "FloorDivide_element (Int8V x) (Int8V y) = lift_int Int8V (FloorDivide_int8 x y)"
| "FloorDivide_element (Int16V x) (Int16V y) = lift_int Int16V (FloorDivide_int16 x y)"
| "FloorDivide_element (Int32V x) (Int32V y) = lift_int Int32V (FloorDivide_int32 x y)"
| "FloorDivide_element (Int64V x) (Int64V y) = lift_int Int64V (FloorDivide_int64 x y)"
| "FloorDivide_element (UInt8V x) (UInt8V y) = lift_int UInt8V (FloorDivide_uint8 x y)"
| "FloorDivide_element (Float16V x) (Float16V y) = Inr (Float16V (FloorDivide_float16 x y))"
| "FloorDivide_element (Float32V x) (Float32V y) = Inr (Float32V (FloorDivide_float x y))"
| "FloorDivide_element (Float64V x) (Float64V y) = Inr (Float64V (FloorDivide_double x y))"
| "FloorDivide_element a b = Inl (ContractViolation DtypeOutsideSubset)"

text \<open>\<open>x1 & x2\<close>, \<open>x1 | x2\<close> and \<open>x1 ^ x2\<close> at an integral element type.\<close>

fun BitwiseAnd_element :: "element \<Rightarrow> element \<Rightarrow> error + element" where
  "BitwiseAnd_element (Int8V x) (Int8V y) = Inr (Int8V (x AND y))"
| "BitwiseAnd_element (Int16V x) (Int16V y) = Inr (Int16V (x AND y))"
| "BitwiseAnd_element (Int32V x) (Int32V y) = Inr (Int32V (x AND y))"
| "BitwiseAnd_element (Int64V x) (Int64V y) = Inr (Int64V (x AND y))"
| "BitwiseAnd_element (UInt8V x) (UInt8V y) = Inr (UInt8V (x AND y))"
| "BitwiseAnd_element a b = Inl (ContractViolation DtypeOutsideSubset)"

fun BitwiseOr_element :: "element \<Rightarrow> element \<Rightarrow> error + element" where
  "BitwiseOr_element (Int8V x) (Int8V y) = Inr (Int8V (x OR y))"
| "BitwiseOr_element (Int16V x) (Int16V y) = Inr (Int16V (x OR y))"
| "BitwiseOr_element (Int32V x) (Int32V y) = Inr (Int32V (x OR y))"
| "BitwiseOr_element (Int64V x) (Int64V y) = Inr (Int64V (x OR y))"
| "BitwiseOr_element (UInt8V x) (UInt8V y) = Inr (UInt8V (x OR y))"
| "BitwiseOr_element a b = Inl (ContractViolation DtypeOutsideSubset)"

fun BitwiseXor_element :: "element \<Rightarrow> element \<Rightarrow> error + element" where
  "BitwiseXor_element (Int8V x) (Int8V y) = Inr (Int8V (x XOR y))"
| "BitwiseXor_element (Int16V x) (Int16V y) = Inr (Int16V (x XOR y))"
| "BitwiseXor_element (Int32V x) (Int32V y) = Inr (Int32V (x XOR y))"
| "BitwiseXor_element (Int64V x) (Int64V y) = Inr (Int64V (x XOR y))"
| "BitwiseXor_element (UInt8V x) (UInt8V y) = Inr (UInt8V (x XOR y))"
| "BitwiseXor_element a b = Inl (ContractViolation DtypeOutsideSubset)"

section \<open>The kernels\<close>

text \<open>
  Modelled from the spec: the macros \<open>CHAINERX_NATIVE_REGISTER_ELTWISE_DTYPE_BINARY_KERNEL\<close>
  and \<open>CHAINERX_NATIVE_REGISTER_ELTWISE_BINARY_KERNEL\<close> of
  \<open>chainerx/native/kernel_regist.h\<close> are not among the sources. They define the
  array-array kernel of a per-element statement: its \<open>Call\<close> checks the devices of the
  two inputs and the output, coerces both inputs to the element type of the output,
  dispatches on that type with the visitor given (the first macro) or with the full
  visitor \<open>VisitDtype\<close> (the second macro), and runs the statement once per index.
\<close>

definition ELTWISE_DTYPE_BINARY_KERNEL ::
  "externals \<Rightarrow> (element \<Rightarrow> element \<Rightarrow> error + element) \<Rightarrow>
   (Dtype \<Rightarrow> (Dtype \<Rightarrow> error + Array) \<Rightarrow> error + Array) \<Rightarrow>
   Array \<Rightarrow> Array \<Rightarrow> Array \<Rightarrow> error + Array" where
  "ELTWISE_DTYPE_BINARY_KERNEL ext kernel_body visit_dtype x1 x2 out =
     (case CheckDevicesCompatible (device x1) [x1, x2, out] of
        Inl e \<Rightarrow> Inl e
      | Inr u \<Rightarrow>
          (let x1_cast = (if dtype x1 = dtype out then x1 else AsType ext x1 (dtype out));
               x2_cast = (if dtype x2 = dtype out then x2 else AsType ext x2 (dtype out))
           in visit_dtype (dtype out) (\<lambda>T. Elementwise2 T kernel_body x1_cast x2_cast out)))"

definition ELTWISE_BINARY_KERNEL ::
  "externals \<Rightarrow> (element \<Rightarrow> element \<Rightarrow> error + element) \<Rightarrow>
   Array \<Rightarrow> Array \<Rightarrow> Array \<Rightarrow> error + Array" where
  "ELTWISE_BINARY_KERNEL ext kernel_body = ELTWISE_DTYPE_BINARY_KERNEL ext kernel_body VisitDtype"

text \<open>
  The kernels in the order of the source. An array-array kernel is the macro with its
  per-element statement and, where the source gives one, its visitor. The \<open>Call\<close> of an
  array-scalar kernel checks that \<open>x1\<close> and \<open>out\<close> are on the device of \<open>x1\<close>, takes
  \<open>x1\<close> itself when its element type is that of \<open>out\<close> and \<open>x1.AsType(out.dtype())\<close>
  otherwise, dispatches on \<open>out.dtype()\<close> and, at the type \<open>T\<close>, converts the scalar
  (\<open>static_cast<T>(x2)\<close>) and runs its statement over \<open>x1_cast\<close> and \<open>out\<close>; a
  scalar-array kernel does the same with the scalar on the left. The operations of
  \<open>ArithmeticOps<T>\<close> act on elements that carry their type.
\<close>

definition AddKernel_Call :: "externals \<Rightarrow> Array \<Rightarrow> Array \<Rightarrow> Array \<Rightarrow> error + Array" where
  "AddKernel_Call ext = ELTWISE_BINARY_KERNEL ext (\<lambda>x1 x2. Inr (ArithmeticOps_Add ext x1 x2))"

definition NativeAddASKernel_Call ::
  "externals \<Rightarrow> Array \<Rightarrow> Scalar \<Rightarrow> Array \<Rightarrow> error + Array" where
  "NativeAddASKernel_Call ext x1 x2 out =
     (case CheckDevicesCompatible (device x1) [x1, out] of
        Inl e \<Rightarrow> Inl e
      | Inr u \<Rightarrow>
          (let x1_cast = (if dtype x1 = dtype out then x1 else AsType ext x1 (dtype out))
           in VisitDtype (dtype out)
                (\<lambda>T. Elementwise1 T (\<lambda>x. (\<lambda>x1 x2. Inr (ArithmeticOps_Add ext x1 x2)) x (Scalar_cast ext T x2)) x1_cast out)))"

definition SubtractKernel_Call :: "externals \<Rightarrow> Array \<Rightarrow> Array \<Rightarrow> Array \<Rightarrow> error + Array" where
  "SubtractKernel_Call ext = ELTWISE_DTYPE_BINARY_KERNEL ext (\<lambda>x1 x2. Inr (ArithmeticOps_Subtract ext x1 x2)) VisitNumericDtype"

definition NativeSubtractASKernel_Call ::
  "externals \<Rightarrow> Array \<Rightarrow> Scalar \<Rightarrow> Array \<Rightarrow> error + Array" where
  "NativeSubtractASKernel_Call ext x1 x2 out =
     (case CheckDevicesCompatible (device x1) [x1, out] of
        Inl e \<Rightarrow> Inl e
      | Inr u \<Rightarrow>
          (let x1_cast = (if dtype x1 = dtype out then x1 else AsType ext x1 (dtype out))
           in VisitNumericDtype (dtype out)
                (\<lambda>T. Elementwise1 T (\<lambda>x. (\<lambda>x1 x2. Inr (ArithmeticOps_Subtract ext x1 x2)) x (Scalar_cast ext T x2)) x1_cast out)))"

definition MultiplyKernel_Call :: "externals \<Rightarrow> Array \<Rightarrow> Array \<Rightarrow> Array \<Rightarrow> error + Array" where
  "MultiplyKernel_Call ext = ELTWISE_BINARY_KERNEL ext (\<lambda>x1 x2. Inr (ArithmeticOps_Multiply ext x1 x2))"

definition NativeMultiplyASKernel_Call ::
  "externals \<Rightarrow> Array \<Rightarrow> Scalar \<Rightarrow> Array \<Rightarrow> error + Array" where
  "NativeMultiplyASKernel_Call ext x1 x2 out =
     (case CheckDevicesCompatible (device x1) [x1, out] of
        Inl e \<Rightarrow> Inl e
      | Inr u \<Rightarrow>
          (let x1_cast = (if dtype x1 = dtype out then x1 else AsType ext x1 (dtype out))
           in VisitDtype (dtype out)
                (\<lambda>T. Elementwise1 T (\<lambda>x. (\<lambda>x1 x2. Inr (ArithmeticOps_Multiply ext x1 x2)) x (Scalar_cast ext T x2)) x1_cast out)))"

definition FloorDivideKernel_Call :: "externals \<Rightarrow> Array \<Rightarrow> Array \<Rightarrow> Array \<Rightarrow> error + Array" where
  "FloorDivideKernel_Call ext = ELTWISE_DTYPE_BINARY_KERNEL ext FloorDivide_element VisitNumericDtype"

definition NativeFloorDivideASKernel_Call ::
  "externals \<Rightarrow> Array \<Rightarrow> Scalar \<Rightarrow> Array \<Rightarrow> error + Array" where
  "NativeFloorDivideASKernel_Call ext x1 x2 out =
     (case CheckDevicesCompatible (device x1) [x1, out] of
        Inl e \<Rightarrow> Inl e
      | Inr u \<Rightarrow>
          (let x1_cast = (if dtype x1 = dtype out then x1 else AsType ext x1 (dtype out))
           in VisitNumericDtype (dtype out)
                (\<lambda>T. Elementwise1 T (\<lambda>x. FloorDivide_element x (Scalar_cast ext T x2)) x1_cast out)))"

definition NativeFloorDivideSAKernel_Call ::
  "externals \<Rightarrow> Scalar \<Rightarrow> Array \<Rightarrow> Array \<Rightarrow> error + Array" where
  "NativeFloorDivideSAKernel_Call ext x1 x2 out =
     (case CheckDevicesCompatible (device x2) [x2, out] of
        Inl e \<Rightarrow> Inl e
      | Inr u \<Rightarrow>
          (let x2_cast = (if dtype x2 = dtype out then x2 else AsType ext x2 (dtype out))
           in VisitNumericDtype (dtype out)
                (\<lambda>T. Elementwise1 T (\<lambda>x. FloorDivide_element (Scalar_cast ext T x1) x) x2_cast out)))"

definition DivideKernel_Call :: "externals \<Rightarrow> Array \<Rightarrow> Array \<Rightarrow> Array \<Rightarrow> error + Array" where
  "DivideKernel_Call ext = ELTWISE_BINARY_KERNEL ext (\<lambda>x1 x2. Inr (ArithmeticOps_Divide ext x1 x2))"

definition NativeDivideASKernel_Call ::
  "externals \<Rightarrow> Array \<Rightarrow> Scalar \<Rightarrow> Array \<Rightarrow> error + Array" where
  "NativeDivideASKernel_Call ext x1 x2 out =
     (case CheckDevicesCompatible (device x1) [x1, out] of
        Inl e \<Rightarrow> Inl e
      | Inr u \<Rightarrow>
          (let x1_cast = (if dtype x1 = dtype out then x1 else AsType ext x1 (dtype out))
           in VisitDtype (dtype out)
                (\<lambda>T. Elementwise1 T (\<lambda>x. (\<lambda>x1 x2. Inr (ArithmeticOps_Divide ext x1 x2)) x (Scalar_cast ext T x2)) x1_cast out)))"

definition NativeDivideSAKernel_Call ::
  "externals \<Rightarrow> Scalar \<Rightarrow> Array \<Rightarrow> Array \<Rightarrow> error + Array" where
  "NativeDivideSAKernel_Call ext x1 x2 out =
     (case CheckDevicesCompatible (device x2) [x2, out] of
        Inl e \<Rightarrow> Inl e
      | Inr u \<Rightarrow>
          (let x2_cast = (if dtype x2 = dtype out then x2 else AsType ext x2 (dtype out))
           in VisitDtype (dtype out)
                (\<lambda>T. Elementwise1 T (\<lambda>x. (\<lambda>x1 x2. Inr (ArithmeticOps_Divide ext x1 x2)) (Scalar_cast ext T x1) x) x2_cast out)))"

definition BitwiseAndKernel_Call :: "externals \<Rightarrow> Array \<Rightarrow> Array \<Rightarrow> Array \<Rightarrow> error + Array" where
  "BitwiseAndKernel_Call ext = ELTWISE_DTYPE_BINARY_KERNEL ext BitwiseAnd_element VisitIntegralDtype"

definition NativeBitwiseAndASKernel_Call ::
  "externals \<Rightarrow> Array \<Rightarrow> Scalar \<Rightarrow> Array \<Rightarrow> error + Array" where
  "NativeBitwiseAndASKernel_Call ext x1 x2 out =
     (case CheckDevicesCompatible (device x1) [x1, out] of
        Inl e \<Rightarrow> Inl e
      | Inr u \<Rightarrow>
          (let x1_cast = (if dtype x1 = dtype out then x1 else AsType ext x1 (dtype out))
           in VisitIntegralDtype (dtype out)
                (\<lambda>T. Elementwise1 T (\<lambda>x. BitwiseAnd_element x (Scalar_cast ext T x2)) x1_cast out)))"

definition BitwiseOrKernel_Call :: "externals \<Rightarrow> Array \<Rightarrow> Array \<Rightarrow> Array \<Rightarrow> error + Array" where
  "BitwiseOrKernel_Call ext = ELTWISE_DTYPE_BINARY_KERNEL ext BitwiseOr_element VisitIntegralDtype"

definition NativeBitwiseOrASKernel_Call ::
  "externals \<Rightarrow> Array \<Rightarrow> Scalar \<Rightarrow> Array \<Rightarrow> error + Array" where
  "NativeBitwiseOrASKernel_Call ext x1 x2 out =
     (case CheckDevicesCompatible (device x1) [x1, out] of
        Inl e \<Rightarrow> Inl e
      | Inr u \<Rightarrow>
          (let x1_cast = (if dtype x1 = dtype out then x1 else AsType ext x1 (dtype out))
           in VisitIntegralDtype (dtype out)
                (\<lambda>T. Elementwise1 T (\<lambda>x. BitwiseOr_element x (Scalar_cast ext T x2)) x1_cast out)))"

definition BitwiseXorKernel_Call :: "externals \<Rightarrow> Array \<Rightarrow> Array \<Rightarrow> Array \<Rightarrow> error + Array" where
  "BitwiseXorKernel_Call ext = ELTWISE_DTYPE_BINARY_KERNEL ext BitwiseXor_element VisitIntegralDtype"

definition NativeBitwiseXorASKernel_Call ::
  "externals \<Rightarrow> Array \<Rightarrow> Scalar \<Rightarrow> Array \<Rightarrow> error + Array" where
  "NativeBitwiseXorASKernel_Call ext x1 x2 out =
     (case CheckDevicesCompatible (device x1) [x1, out] of
        Inl e \<Rightarrow> Inl e
      | Inr u \<Rightarrow>
          (let x1_cast = (if dtype x1 = dtype out then x1 else AsType ext x1 (dtype out))
           in VisitIntegralDtype (dtype out)
                (\<lambda>T. Elementwise1 T (\<lambda>x. BitwiseXor_element x (Scalar_cast ext T x2)) x1_cast out)))"

text \<open>
  The body that the array-scalar kernels share, and the one of the scalar-array kernels,
  with the visitor and the per-element statement as arguments: the proofs below treat
  the kernels through them.
\<close>

definition ArrayScalar_Call ::
  "externals \<Rightarrow> (Dtype \<Rightarrow> (Dtype \<Rightarrow> error + Array) \<Rightarrow> error + Array) \<Rightarrow>
   (element \<Rightarrow> element \<Rightarrow> error + element) \<Rightarrow> Array \<Rightarrow> Scalar \<Rightarrow> Array \<Rightarrow> error + Array" where
  "ArrayScalar_Call ext visit body x1 x2 out =
     (case CheckDevicesCompatible (device x1) [x1, out] of
        Inl e \<Rightarrow> Inl e
      | Inr u \<Rightarrow>
          (let x1_cast = (if dtype x1 = dtype out then x1 else AsType ext x1 (dtype out))
           in visit (dtype out)
                (\<lambda>T. Elementwise1 T (\<lambda>x. body x (Scalar_cast ext T x2)) x1_cast out)))"

definition ScalarArray_Call ::
  "externals \<Rightarrow> (Dtype \<Rightarrow> (Dtype \<Rightarrow> error + Array) \<Rightarrow> error + Array) \<Rightarrow>
   (element \<Rightarrow> element \<Rightarrow> error + element) \<Rightarrow> Scalar \<Rightarrow> Array \<Rightarrow> Array \<Rightarrow> error + Array" where
  "ScalarArray_Call ext visit body x1 x2 out =
     (case CheckDevicesCompatible (device x2) [x2, out] of
        Inl e \<Rightarrow> Inl e
      | Inr u \<Rightarrow>
          (let x2_cast = (if dtype x2 = dtype out then x2 else AsType ext x2 (dtype out))
           in visit (dtype out)
                (\<lambda>T. Elementwise1 T (\<lambda>x. body (Scalar_cast ext T x1) x) x2_cast out)))"

section \<open>Truncating and flooring division on the integers\<close>

text \<open>
  On the integers: the quotient truncated towards zero, less one when the remainder is
  not zero and of the sign opposite to the divisor's, is the quotient rounded towards
  minus infinity, which is \<open>div\<close>.
\<close>

lemma floor_core:
  fixes a b :: int
  assumes "b \<noteq> 0"
  shows "a sdiv b - (if (if 0 \<le> b then a smod b else - (a smod b)) < 0 then 1 else 0) = a div b"
proof -
  define q r where "q = a sdiv b" and "r = a smod b"
  have eq: "a = b * q + r"
    by (simp add: q_def r_def mult_sdiv_smod_eq)
  have rng: "- \<bar>b\<bar> < r" "r < \<bar>b\<bar>"
    using smod_int_range [OF assms, of a] by (auto simp: r_def)
  have "a div b = q - (if (if 0 \<le> b then r else - r) < 0 then 1 else 0)"
  proof (cases "0 < b")
    case True
    show ?thesis
    proof (cases "r < 0")
      case True
      have "a = b * (q - 1) + (r + b)" using eq by (simp add: algebra_simps)
      moreover have "0 \<le> r + b" "r + b < b" using rng True \<open>0 < b\<close> by auto
      ultimately have "a div b = q - 1" by (rule int_div_pos_eq)
      with True \<open>0 < b\<close> show ?thesis by simp
    next
      case False
      have "a div b = q" using eq False rng \<open>0 < b\<close> by (intro int_div_pos_eq [of a b q r]) auto
      with False \<open>0 < b\<close> show ?thesis by simp
    qed
  next
    case False
    with assms have neg: "b < 0" by simp
    show ?thesis
    proof (cases "0 < r")
      case True
      have "a = b * (q - 1) + (r + b)" using eq by (simp add: algebra_simps)
      moreover have "r + b \<le> 0" "b < r + b" using rng True neg by auto
      ultimately have "a div b = q - 1" by (rule int_div_neg_eq)
      with True neg show ?thesis by simp
    next
      case False
      have "a div b = q" using eq False rng neg by (intro int_div_neg_eq [of a b q r]) auto
      with False neg show ?thesis by simp
    qed
  qed
  then show ?thesis by (simp add: q_def r_def)
qed

text \<open>
  A representable integer is read back from its word unchanged; the remainder of
  \<open>std::div\<close> and its negation are representable.
\<close>

lemma sint_word_of_int_representable:
  "representable TYPE('a::len) k \<Longrightarrow> sint (word_of_int k :: 'a word) = k"
  unfolding representable_def
  by (simp add: sint_sbintrunc' signed_take_bit_int_eq_self)

lemma representable_smod:
  fixes x y :: "'a::len word"
  assumes "y \<noteq> 0"
  shows "representable TYPE('a) (sint x smod sint y)"
    and "representable TYPE('a) (- (sint x smod sint y))"
proof -
  have "sint y \<noteq> 0" using assms by (simp add: signed_eq_0_iff)
  from smod_int_range [OF this, of "sint x"]
  have "- \<bar>sint y\<bar> < sint x smod sint y" "sint x smod sint y < \<bar>sint y\<bar>" by auto
  moreover have "\<bar>sint y\<bar> \<le> 2 ^ (LENGTH('a) - 1)"
    using sint_ge [of y] sint_lt [of y] by auto
  ultimately show "representable TYPE('a) (sint x smod sint y)"
    and "representable TYPE('a) (- (sint x smod sint y))"
    unfolding representable_def by auto
qed

text \<open>
  Neither quotient exceeds the dividend in magnitude, and the truncated quotient of a
  negative \<open>a\<close> is \<open>-a\<close> for the divisor \<open>-1\<close> only: but for the most negative value
  divided by \<open>-1\<close>, the quotients are representable.
\<close>

lemma abs_div_le_abs_pos:
  fixes a b :: int
  assumes "0 < b"
  shows "\<bar>a div b\<bar> \<le> \<bar>a\<bar>"
proof (cases "0 \<le> a")
  case True
  with assms have "0 \<le> a div b"
    by (simp add: pos_imp_zdiv_nonneg_iff)
  moreover have "a div b \<le> a"
    using int_div_le_self [of a b] True by (cases "a = 0") simp_all
  ultimately show ?thesis using True by simp
next
  case False
  with assms have "a div 1 \<le> a div b"
    by (intro zdiv_mono2_neg) simp_all
  moreover have "a div b < 0"
    using False assms by (simp add: pos_imp_zdiv_neg_iff)
  ultimately show ?thesis by simp
qed

lemma abs_div_le_abs:
  fixes a b :: int
  shows "\<bar>a div b\<bar> \<le> \<bar>a\<bar>"
proof -
  consider "b = 0" | "0 < b" | "b < 0" by linarith
  then show ?thesis
  proof cases
    case 1 then show ?thesis by simp
  next
    case 2 then show ?thesis by (rule abs_div_le_abs_pos)
  next
    case 3
    then have "\<bar>(- a) div (- b)\<bar> \<le> \<bar>- a\<bar>" by (intro abs_div_le_abs_pos) simp
    then show ?thesis by simp
  qed
qed

lemma sdiv_eq_abs_imp:
  fixes a b :: int
  assumes "a < 0" and "a sdiv b = - a"
  shows "b = - 1"
  using assms by auto

lemma representable_sdiv:
  fixes x y :: "'a::len word"
  assumes "\<not> (sint x = - (2 ^ (LENGTH('a) - 1)) \<and> sint y = - 1)"
  shows "representable TYPE('a) (sint x sdiv sint y)"
proof -
  let ?a = "sint x" and ?b = "sint y"
  have r: "- \<bar>?a\<bar> \<le> ?a sdiv ?b" "?a sdiv ?b \<le> \<bar>?a\<bar>"
    using sdiv_int_range [of ?a ?b] by auto
  have a: "- (2 ^ (LENGTH('a) - 1)) \<le> ?a" "?a < 2 ^ (LENGTH('a) - 1)"
    using sint_ge [of x] sint_lt [of x] by auto
  show ?thesis
  proof (cases "?a = - (2 ^ (LENGTH('a) - 1))")
    case False
    with a r show ?thesis unfolding representable_def by auto
  next
    case True
    then have "?a < 0" by simp
    from True assms have "?b \<noteq> - 1" by simp
    with sdiv_eq_abs_imp [OF \<open>?a < 0\<close>] have "?a sdiv ?b \<noteq> - ?a" by blast
    with r a True show ?thesis unfolding representable_def by auto
  qed
qed

lemma representable_div:
  fixes x y :: "'a::len word"
  assumes "y \<noteq> 0" and "\<not> (sint x = - (2 ^ (LENGTH('a) - 1)) \<and> sint y = - 1)"
  shows "representable TYPE('a) (sint x div sint y)"
proof -
  let ?a = "sint x" and ?b = "sint y"
  have b: "?b \<noteq> 0" using assms(1) by (simp add: signed_eq_0_iff)
  have q: "representable TYPE('a) (?a sdiv ?b)"
    using assms(2) by (rule representable_sdiv)
  have "?a div ?b \<le> ?a sdiv ?b"
    using floor_core [OF b, of ?a] by (simp split: if_splits)
  with q have up: "?a div ?b < 2 ^ (LENGTH('a) - 1)"
    unfolding representable_def by simp
  have "- \<bar>?a\<bar> \<le> ?a div ?b"
    using abs_div_le_abs [of ?a ?b] by simp
  moreover have "\<bar>?a\<bar> \<le> 2 ^ (LENGTH('a) - 1)"
    using sint_ge [of x] sint_lt [of x] by simp
  ultimately have "- (2 ^ (LENGTH('a) - 1)) \<le> ?a div ?b" by simp
  with up show ?thesis unfolding representable_def by simp
qed

text \<open>
  The body shared by the 32- and the 64-bit overload, at any width: \<open>std::div\<close>
  returns, and the expression of the source is the word of the floor quotient.
\<close>

lemma floor_rule_word:
  fixes x y :: "'a::len word"
  assumes y: "y \<noteq> 0" and nov: "\<not> (sint x = - (2 ^ (LENGTH('a) - 1)) \<and> sint y = - 1)"
  shows "\<exists>d. std_div x y = Some d \<and>
           quot d - (if (if 0 \<le>s y then rem d else - rem d) <s 0 then 1 else 0)
             = word_of_int (sint x div sint y)"
proof -
  let ?a = "sint x" and ?b = "sint y"
  let ?d = "\<lparr>quot = word_of_int (?a sdiv ?b), rem = word_of_int (?a smod ?b)\<rparr> :: 'a word div_t"
  have b: "?b \<noteq> 0" using y by (simp add: signed_eq_0_iff)
  have d: "std_div x y = Some ?d"
    using y representable_sdiv [OF nov] by (simp add: std_div_def)
  have r1: "sint (word_of_int (?a smod ?b) :: 'a word) = ?a smod ?b"
    by (rule sint_word_of_int_representable) (rule representable_smod [OF y])
  have r2: "sint (- word_of_int (?a smod ?b) :: 'a word) = - (?a smod ?b)"
    unfolding wi_hom_neg
    by (rule sint_word_of_int_representable) (rule representable_smod [OF y])
  have c: "(if 0 \<le>s y then rem ?d else - rem ?d) <s 0
             \<longleftrightarrow> (if 0 \<le> ?b then ?a smod ?b else - (?a smod ?b)) < 0"
    by (simp add: word_sle_eq word_sless_alt r1 r2)
  have "quot ?d - (if (if 0 \<le>s y then rem ?d else - rem ?d) <s 0 then 1 else 0)
          = word_of_int (?a sdiv ?b
              - (if (if 0 \<le> ?b then ?a smod ?b else - (?a smod ?b)) < 0 then 1 else 0))"
  proof (cases "(if 0 \<le> ?b then ?a smod ?b else - (?a smod ?b)) < 0")
    case True
    with c have "(if 0 \<le>s y then rem ?d else - rem ?d) <s 0" by blast
    then have "quot ?d - (if (if 0 \<le>s y then rem ?d else - rem ?d) <s 0 then 1 else 0)
                 = word_of_int (?a sdiv ?b) - word_of_int 1"
      by (simp only: if_True div_t.select_convs word_of_int_1)
    also have "\<dots> = word_of_int (?a sdiv ?b - 1)" by (rule wi_hom_sub)
    finally show ?thesis using True by (simp only: if_True)
  next
    case False
    with c have "\<not> (if 0 \<le>s y then rem ?d else - rem ?d) <s 0" by blast
    then have "quot ?d - (if (if 0 \<le>s y then rem ?d else - rem ?d) <s 0 then 1 else 0)
                 = word_of_int (?a sdiv ?b) - word_of_int 0"
      by (simp only: if_False div_t.select_convs word_of_int_0)
    also have "\<dots> = word_of_int (?a sdiv ?b - 0)" by (rule wi_hom_sub)
    finally show ?thesis using False by (simp only: if_False)
  qed
  also have "\<dots> = word_of_int (?a div ?b)"
    by (simp only: floor_core [OF b])
  finally show ?thesis using d by blast
qed

lemma FloorDivide_int32_div:
  assumes "y \<noteq> 0" and "\<not> (sint x = - (2 ^ 31) \<and> sint y = - 1)"
  shows "FloorDivide_int32 x y = Some (word_of_int (sint x div sint y))"
  using floor_rule_word [of y x] assms by (auto simp: FloorDivide_int32_def)

lemma FloorDivide_int64_div:
  assumes "y \<noteq> 0" and "\<not> (sint x = - (2 ^ 63) \<and> sint y = - 1)"
  shows "FloorDivide_int64 x y = Some (word_of_int (sint x div sint y))"
  using floor_rule_word [of y x] assms by (auto simp: FloorDivide_int64_def)

text \<open>
  Widening keeps the value, so a widened divisor is zero only when the divisor is, and a
  widened dividend is never the most negative \<open>int32_t\<close>: the 8- and 16-bit overloads
  always return.
\<close>

lemma sint_widen8: "sint (scast (x :: int8_t) :: int32_t) = sint x"
  by (rule sint_up_scast) (simp add: is_up)

lemma sint_widen16: "sint (scast (x :: int16_t) :: int32_t) = sint x"
  by (rule sint_up_scast) (simp add: is_up)

lemma widen8_eq_0: "(scast (y :: int8_t) :: int32_t) = 0 \<longleftrightarrow> y = 0"
  using sint_widen8 [of y] by (metis signed_eq_0_iff)

lemma widen16_eq_0: "(scast (y :: int16_t) :: int32_t) = 0 \<longleftrightarrow> y = 0"
  using sint_widen16 [of y] by (metis signed_eq_0_iff)

lemma widen8_not_min: "sint (scast (x :: int8_t) :: int32_t) \<noteq> - (2 ^ 31)"
  using sint_ge [of x] by (simp add: sint_widen8)

lemma widen16_not_min: "sint (scast (x :: int16_t) :: int32_t) \<noteq> - (2 ^ 31)"
  using sint_ge [of x] by (simp add: sint_widen16)

lemma FloorDivide_int8_div:
  assumes "y \<noteq> 0"
  shows "FloorDivide_int8 x y = Some (word_of_int (sint x div sint y))"
proof -
  have "FloorDivide_int32 (scast x) (scast y)
          = Some (word_of_int (sint (scast x :: int32_t) div sint (scast y :: int32_t)))"
    using assms widen8_not_min [of x] by (intro FloorDivide_int32_div) (simp_all add: widen8_eq_0)
  then show ?thesis
    by (simp add: FloorDivide_int8_def sint_widen8 ucast_down_wi is_down)
qed

lemma FloorDivide_int16_div:
  assumes "y \<noteq> 0"
  shows "FloorDivide_int16 x y = Some (word_of_int (sint x div sint y))"
proof -
  have "FloorDivide_int32 (scast x) (scast y)
          = Some (word_of_int (sint (scast x :: int32_t) div sint (scast y :: int32_t)))"
    using assms widen16_not_min [of x] by (intro FloorDivide_int32_div) (simp_all add: widen16_eq_0)
  then show ?thesis
    by (simp add: FloorDivide_int16_def sint_widen16 ucast_down_wi is_down)
qed

text \<open>The rule in the spec's wording is the floor quotient, and zero for a zero divisor.\<close>

lemma spec_signed_rule_div: "spec_signed_rule a b = (if b = 0 then 0 else a div b)"
proof (cases "b = 0")
  case True
  then show ?thesis by (simp add: spec_signed_rule_def)
next
  case False
  have c: "(a smod b \<noteq> 0 \<and> (a smod b < 0) \<noteq> (b < 0))
          \<longleftrightarrow> (if 0 \<le> b then a smod b else - (a smod b)) < 0"
    using False by auto
  have "spec_signed_rule a b
          = a sdiv b - (if (if 0 \<le> b then a smod b else - (a smod b)) < 0 then 1 else 0)"
    unfolding spec_signed_rule_def c using False by simp
  also have "\<dots> = a div b" using False by (rule floor_core)
  finally show ?thesis using False by simp
qed

lemma FloorDivide_int8_spec:
  "FloorDivide_int8 x y = Some (word_of_int (spec_signed_rule (sint x) (sint y)))"
proof (cases "y = 0")
  case True
  then show ?thesis
    by (simp add: spec_signed_rule_div FloorDivide_int8_def FloorDivide_int32_def)
next
  case False
  then have "sint y \<noteq> 0" by (simp add: signed_eq_0_iff)
  with False show ?thesis
    by (simp add: spec_signed_rule_div FloorDivide_int8_div)
qed

lemma FloorDivide_int16_spec:
  "FloorDivide_int16 x y = Some (word_of_int (spec_signed_rule (sint x) (sint y)))"
proof (cases "y = 0")
  case True
  then show ?thesis
    by (simp add: spec_signed_rule_div FloorDivide_int16_def FloorDivide_int32_def)
next
  case False
  then have "sint y \<noteq> 0" by (simp add: signed_eq_0_iff)
  with False show ?thesis
    by (simp add: spec_signed_rule_div FloorDivide_int16_div)
qed

lemma FloorDivide_int32_widened8:
  "\<exists>r. FloorDivide_int32 (scast (x :: int8_t)) (scast (y :: int8_t)) = Some r"
proof (cases "y = 0")
  case True then show ?thesis by (simp add: FloorDivide_int32_def)
next
  case False
  then show ?thesis
    using widen8_not_min [of x] FloorDivide_int32_div [of "scast y" "scast x"]
    by (simp add: widen8_eq_0)
qed

lemma FloorDivide_int32_widened16:
  "\<exists>r. FloorDivide_int32 (scast (x :: int16_t)) (scast (y :: int16_t)) = Some r"
proof (cases "y = 0")
  case True then show ?thesis by (simp add: FloorDivide_int32_def)
next
  case False
  then show ?thesis
    using widen16_not_min [of x] FloorDivide_int32_div [of "scast y" "scast x"]
    by (simp add: widen16_eq_0)
qed

section \<open>Properties of the integer floor division\<close>

text \<open>
  C1 (as amended). For each signed width and all \<open>a\<close>, \<open>b\<close> with \<open>b \<noteq> 0\<close>, except the
  pair of the most negative value and \<open>-1\<close> (whose quotient the type cannot hold),
  \<open>FloorDivide(a, b)\<close> returns the floor of the exact real quotient \<open>a / b\<close>.
\<close>

theorem FloorDivide_signed_floor:
  fixes x8 y8 :: int8_t and x16 y16 :: int16_t
    and x32 y32 :: int32_t and x64 y64 :: int64_t
  shows
    "(y8 \<noteq> 0 \<and> \<not> (sint x8 = - 128 \<and> sint y8 = - 1) \<longrightarrow>
        map_option sint (FloorDivide_int8 x8 y8)
          = Some \<lfloor>real_of_int (sint x8) / real_of_int (sint y8)\<rfloor>) \<and>
     (y16 \<noteq> 0 \<and> \<not> (sint x16 = - 32768 \<and> sint y16 = - 1) \<longrightarrow>
        map_option sint (FloorDivide_int16 x16 y16)
          = Some \<lfloor>real_of_int (sint x16) / real_of_int (sint y16)\<rfloor>) \<and>
     (y32 \<noteq> 0 \<and> \<not> (sint x32 = - 2147483648 \<and> sint y32 = - 1) \<longrightarrow>
        map_option sint (FloorDivide_int32 x32 y32)
          = Some \<lfloor>real_of_int (sint x32) / real_of_int (sint y32)\<rfloor>) \<and>
     (y64 \<noteq> 0 \<and> \<not> (sint x64 = - 9223372036854775808 \<and> sint y64 = - 1) \<longrightarrow>
        map_option sint (FloorDivide_int64 x64 y64)
          = Some \<lfloor>real_of_int (sint x64) / real_of_int (sint y64)\<rfloor>)"
proof (intro conjI impI)
  assume h: "y8 \<noteq> 0 \<and> \<not> (sint x8 = - 128 \<and> sint y8 = - 1)"
  then have "representable TYPE(8) (sint x8 div sint y8)"
    by (intro representable_div) simp_all
  with h show "map_option sint (FloorDivide_int8 x8 y8)
          = Some \<lfloor>real_of_int (sint x8) / real_of_int (sint y8)\<rfloor>"
    unfolding floor_divide_of_int_eq
    by (simp add: FloorDivide_int8_div sint_word_of_int_representable)
next
  assume h: "y16 \<noteq> 0 \<and> \<not> (sint x16 = - 32768 \<and> sint y16 = - 1)"
  then have "representable TYPE(16) (sint x16 div sint y16)"
    by (intro representable_div) simp_all
  with h show "map_option sint (FloorDivide_int16 x16 y16)
          = Some \<lfloor>real_of_int (sint x16) / real_of_int (sint y16)\<rfloor>"
    unfolding floor_divide_of_int_eq
    by (simp add: FloorDivide_int16_div sint_word_of_int_representable)
next
  assume h: "y32 \<noteq> 0 \<and> \<not> (sint x32 = - 2147483648 \<and> sint y32 = - 1)"
  then have "representable TYPE(32) (sint x32 div sint y32)"
    by (intro representable_div) simp_all
  with h show "map_option sint (FloorDivide_int32 x32 y32)
          = Some \<lfloor>real_of_int (sint x32) / real_of_int (sint y32)\<rfloor>"
    unfolding floor_divide_of_int_eq
    by (simp add: FloorDivide_int32_div sint_word_of_int_representable)
next
  assume h: "y64 \<noteq> 0 \<and> \<not> (sint x64 = - 9223372036854775808 \<and> sint y64 = - 1)"
  then have "representable TYPE(64) (sint x64 div sint y64)"
    by (intro representable_div) simp_all
  with h show "map_option sint (FloorDivide_int64 x64 y64)
          = Some \<lfloor>real_of_int (sint x64) / real_of_int (sint y64)\<rfloor>"
    unfolding floor_divide_of_int_eq
    by (simp add: FloorDivide_int64_div sint_word_of_int_representable)
qed

text \<open>The instance \<open>FloorDivide(-7, 2) = -4\<close> of the claim, at every signed width.\<close>

theorem FloorDivide_signed_floor_witness:
  "(2 :: int8_t) \<noteq> 0 \<and> sint (- 7 :: int8_t) \<noteq> - 128 \<and>
   (2 :: int16_t) \<noteq> 0 \<and> sint (- 7 :: int16_t) \<noteq> - 32768 \<and>
   (2 :: int32_t) \<noteq> 0 \<and> sint (- 7 :: int32_t) \<noteq> - 2147483648 \<and>
   (2 :: int64_t) \<noteq> 0 \<and> sint (- 7 :: int64_t) \<noteq> - 9223372036854775808 \<and>
   map_option sint (FloorDivide_int8 (- 7) 2) = Some (- 4) \<and>
   map_option sint (FloorDivide_int16 (- 7) 2) = Some (- 4) \<and>
   map_option sint (FloorDivide_int32 (- 7) 2) = Some (- 4) \<and>
   map_option sint (FloorDivide_int64 (- 7) 2) = Some (- 4)"
  using FloorDivide_signed_floor [of 2 "- 7" 2 "- 7" 2 "- 7" 2 "- 7"]
  by simp

text \<open>
  C1 as stated fails at \<open>int8_t\<close> for \<open>a = -128\<close>, \<open>b = -1\<close>: the floor of the
  quotient is \<open>128\<close>, the function returns \<open>-128\<close>.
\<close>

theorem FloorDivide_int8_floor_counterexample:
  "(- 1 :: int8_t) \<noteq> 0 \<and>
   map_option sint (FloorDivide_int8 (- 128) (- 1))
     \<noteq> Some \<lfloor>real_of_int (sint (- 128 :: int8_t)) / real_of_int (sint (- 1 :: int8_t))\<rfloor>"
  by (simp add: FloorDivide_int8_def FloorDivide_int32_def std_div_def representable_def
      word_sle_eq word_sless_alt signed_divide_int_def signed_modulo_int_def)

text \<open>
  C2. For every integer element type (\<open>int8\<close>, \<open>int16\<close>, \<open>int32\<close>, \<open>int64\<close>,
  \<open>uint8\<close>) and every \<open>a\<close>, \<open>FloorDivide(a, 0)\<close> returns \<open>0\<close> and raises no error.
\<close>

theorem FloorDivide_zero_divisor:
  "FloorDivide_int8 a8 0 = Some 0 \<and> FloorDivide_int16 a16 0 = Some 0 \<and>
   FloorDivide_int32 a32 0 = Some 0 \<and> FloorDivide_int64 a64 0 = Some 0 \<and>
   FloorDivide_uint8 u8 0 = Some 0"
  by (simp add: FloorDivide_int8_def FloorDivide_int16_def FloorDivide_int32_def
      FloorDivide_int64_def FloorDivide_uint8_def)

text \<open>
  C6. The \<open>int8\<close> floor division is the \<open>int32\<close> floor division of the widened
  operands, narrowed back to \<open>int8\<close>, and the 32-bit call returns on every pair of
  widened operands; likewise for \<open>int16\<close>. Both are the spec's signed rule computed
  on the values of the operands and narrowed.
\<close>

theorem FloorDivide_narrow_widen_refinement:
  fixes x8 y8 :: int8_t and x16 y16 :: int16_t
  shows
    "(\<exists>r :: int32_t. FloorDivide_int32 (scast x8) (scast y8) = Some r \<and>
         FloorDivide_int8 x8 y8 = Some (ucast r)) \<and>
     (\<exists>r :: int32_t. FloorDivide_int32 (scast x16) (scast y16) = Some r \<and>
         FloorDivide_int16 x16 y16 = Some (ucast r)) \<and>
     FloorDivide_int8 x8 y8 = Some (word_of_int (spec_signed_rule (sint x8) (sint y8))) \<and>
     FloorDivide_int16 x16 y16 = Some (word_of_int (spec_signed_rule (sint x16) (sint y16)))"
  using FloorDivide_int32_widened8 [of x8 y8] FloorDivide_int32_widened16 [of x16 y16]
    FloorDivide_int8_spec [of x8 y8] FloorDivide_int16_spec [of x16 y16]
  by (auto simp: FloorDivide_int8_def FloorDivide_int16_def)

text \<open>
  C10. \<open>int8\<close> \<open>FloorDivide(-128, -1)\<close> returns \<open>-128\<close> and \<open>int16\<close>
  \<open>FloorDivide(-32768, -1)\<close> returns \<open>-32768\<close>, without an error: the 32-bit
  computation on the widened operands yields \<open>128\<close> and \<open>32768\<close>, and narrowing
  wraps them.
\<close>

theorem FloorDivide_extreme_negative:
  "FloorDivide_int8 (- 128) (- 1) = Some (- 128) \<and>
   map_option sint (FloorDivide_int8 (- 128) (- 1)) = Some (- 128) \<and>
   map_option sint (FloorDivide_int32 (scast (- 128 :: int8_t)) (scast (- 1 :: int8_t))) = Some 128 \<and>
   FloorDivide_int16 (- 32768) (- 1) = Some (- 32768) \<and>
   map_option sint (FloorDivide_int16 (- 32768) (- 1)) = Some (- 32768) \<and>
   map_option sint (FloorDivide_int32 (scast (- 32768 :: int16_t)) (scast (- 1 :: int16_t))) = Some 32768"
  by (simp add: FloorDivide_int8_def FloorDivide_int16_def FloorDivide_int32_def std_div_def
      representable_def word_sle_eq word_sless_alt signed_divide_int_def signed_modulo_int_def)

section \<open>Rounding and the floating-point operations\<close>

text \<open>
  \<open>ilog2 a\<close> is the binary exponent of a positive \<open>a\<close>: \<open>2\<^sup>i\<^sup>l\<^sup>o\<^sup>g\<^sup>2\<^sup> \<^sup>a \<le> a < 2\<^sup>i\<^sup>l\<^sup>o\<^sup>g\<^sup>2\<^sup> \<^sup>a\<^sup>+\<^sup>1\<close>.
\<close>

lemma powi_bitlen_bounds:
  fixes n :: int
  assumes "0 < n"
  shows "(2::rat) powi (bitlen n - 1) \<le> of_int n" and "of_int n < (2::rat) powi (bitlen n)"
proof -
  from bitlen_bounds [OF assms]
  have lo: "2 ^ nat (bitlen n - 1) \<le> n" and hi: "n < 2 ^ nat (bitlen n)" by simp_all
  have b: "1 \<le> bitlen n" using assms by (simp add: bitlen_alt_def)
  have "(2::rat) powi (bitlen n - 1) = 2 ^ nat (bitlen n - 1)"
    using b by (simp add: power_int_def)
  also have "\<dots> = of_int (2 ^ nat (bitlen n - 1))" by simp
  also have "\<dots> \<le> of_int n" using lo by (simp only: of_int_le_iff)
  finally show "(2::rat) powi (bitlen n - 1) \<le> of_int n" .
  have "(of_int n :: rat) < of_int (2 ^ nat (bitlen n))" using hi by (simp only: of_int_less_iff)
  also have "\<dots> = 2 ^ nat (bitlen n)" by simp
  also have "\<dots> = 2 powi (bitlen n)" using b by (simp add: power_int_def)
  finally show "of_int n < (2::rat) powi (bitlen n)" .
qed

lemma ilog2_bounds:
  assumes "0 < a"
  shows "2 powi (ilog2 a) \<le> a" and "a < 2 powi (ilog2 a + 1)"
proof -
  obtain n d where q: "quotient_of a = (n, d)" by (cases "quotient_of a")
  then have d: "0 < d" by (rule quotient_of_denom_pos)
  from q have a: "a = of_int n / of_int d" by (rule quotient_of_div)
  with assms d have n: "0 < n" by (simp add: zero_less_divide_iff)
  define k where "k = bitlen n - bitlen d"
  have up: "a < 2 powi (k + 1)"
  proof -
    have "a < 2 powi (bitlen n) / 2 powi (bitlen d - 1)"
      unfolding a using powi_bitlen_bounds [OF n] powi_bitlen_bounds [OF d] d n
      by (simp add: frac_less)
    also have "\<dots> = 2 powi (bitlen n - (bitlen d - 1))"
      by (rule power_int_diff [symmetric]) simp
    also have "bitlen n - (bitlen d - 1) = k + 1"
      by (simp add: k_def)
    finally show ?thesis .
  qed
  have lo: "2 powi (k - 1) \<le> a"
  proof -
    have "2 powi (bitlen n - 1) / 2 powi (bitlen d) \<le> a"
      unfolding a using powi_bitlen_bounds [OF n] powi_bitlen_bounds [OF d] d n
      by (simp add: frac_le)
    moreover have "2 powi (bitlen n - 1) / 2 powi (bitlen d) = (2::rat) powi (bitlen n - 1 - bitlen d)"
      by (rule power_int_diff [symmetric]) simp
    moreover have "bitlen n - 1 - bitlen d = k - 1"
      by (simp add: k_def)
    ultimately show ?thesis by simp
  qed
  have i: "ilog2 a = (if 2 powi k \<le> a then k else k - 1)"
    by (simp add: ilog2_def q k_def Let_def)
  show "2 powi (ilog2 a) \<le> a" using lo by (simp add: i)
  show "a < 2 powi (ilog2 a + 1)" using up by (auto simp add: i)
qed

lemma round_even_of_int: "round_even (of_int n) = n"
  by (simp add: round_even_def)

lemma powi_less_imp_less:
  fixes i j :: int
  assumes "(2::rat) powi i < 2 powi j"
  shows "i < j"
proof (rule ccontr)
  assume "\<not> i < j"
  then have "j \<le> i" by simp
  then have "(2::rat) powi j \<le> 2 powi i" by (rule power_int_increasing) simp
  with assms show False by simp
qed

lemma ilog2_less:
  assumes "0 < a" and "a < 2 powi j"
  shows "ilog2 a < j"
proof -
  have "2 powi (ilog2 a) \<le> a" using assms(1) by (rule ilog2_bounds)
  with assms(2) have "(2::rat) powi (ilog2 a) < 2 powi j" by simp
  then show ?thesis by (rule powi_less_imp_less)
qed

text \<open>
  A value of the format, \<open>m * 2\<^sup>k\<close> with a significand \<open>m\<close> below \<open>2\<^sup>p\<close>, an exponent
  \<open>k\<close> not below that of the subnormal values and a magnitude below \<open>2\<^sup>e\<^sup>m\<^sup>a\<^sup>x\<^sup>+\<^sup>1\<close>, is
  its own rounding.
\<close>

lemma powi_split:
  fixes j k :: int
  assumes "j \<le> k"
  shows "(2::rat) powi k = of_int (2 ^ nat (k - j)) * 2 powi j"
proof -
  have "(2::rat) powi k = 2 powi ((k - j) + j)" by simp
  also have "\<dots> = 2 powi (k - j) * 2 powi j" by (rule power_int_add) simp
  also have "(2::rat) powi (k - j) = 2 ^ nat (k - j)" using assms by (simp add: power_int_def)
  finally show ?thesis by simp
qed

lemma rnd_exact:
  fixes m :: int
  assumes m: "0 < m" "m < 2 ^ prec fmt"
    and k: "2 - emax fmt - int (prec fmt) \<le> k"
    and ov: "of_int m * 2 powi k < (2::rat) powi (emax fmt + 1)"
  shows "rnd fmt s (of_int m * 2 powi k) = Finite s (of_int m * 2 powi k)"
proof -
  define a :: rat where "a = of_int m * 2 powi k"
  define e where "e = max (ilog2 a) (1 - emax fmt)"
  define j where "j = e - int (prec fmt) + 1"
  have a0: "0 < a" using m(1) by (simp add: a_def)
  have "a < of_int (2 ^ prec fmt) * 2 powi k"
    unfolding a_def using m(2) by (intro mult_strict_right_mono) (simp_all only: of_int_less_iff, simp)
  also have "\<dots> = 2 powi (int (prec fmt) + k)"
    by (simp add: power_int_add)
  finally have "ilog2 a < int (prec fmt) + k" using a0 by (intro ilog2_less)
  with k have jk: "j \<le> k" by (simp add: j_def e_def)
  have "a / 2 powi j = of_int m * (of_int (2 ^ nat (k - j)) * 2 powi j) / 2 powi j"
    unfolding a_def using powi_split [OF jk] by simp
  then have q: "a / 2 powi j = of_int (m * 2 ^ nat (k - j))" by simp
  have "of_int (round_even (a / 2 powi j)) * 2 powi j
          = of_int (m * 2 ^ nat (k - j)) * (2::rat) powi j"
    by (simp only: q round_even_of_int)
  also have "\<dots> = of_int m * (of_int (2 ^ nat (k - j)) * 2 powi j)"
    by simp
  also have "\<dots> = a"
    by (simp only: a_def powi_split [OF jk, symmetric])
  finally have r: "of_int (round_even (a / 2 powi j)) * 2 powi j = a" .
  have "rnd fmt s a = Finite s a"
    using a0 ov r unfolding rnd_def Let_def e_def [symmetric] j_def [symmetric]
    by (simp add: a_def [symmetric])
  then show ?thesis by (simp only: a_def)
qed

text \<open>
  Rounding a positive magnitude gives the infinity, a zero, or a value of the format; so
  rounding twice is rounding once.
\<close>

lemma round_even_bounds:
  assumes "0 \<le> n" and "n < of_int N"
  shows "0 \<le> round_even n" and "round_even n \<le> N"
proof -
  have f0: "0 \<le> \<lfloor>n\<rfloor>" using assms(1) by simp
  have fN: "\<lfloor>n\<rfloor> < N" using assms(2) by (simp add: floor_less_iff)
  have c: "round_even n = \<lfloor>n\<rfloor> \<or> round_even n = \<lfloor>n\<rfloor> + 1"
    by (simp add: round_even_def Let_def)
  from c f0 show "0 \<le> round_even n" by auto
  from c fN show "round_even n \<le> N" by auto
qed

lemma rnd_cases:
  assumes a0: "0 < a" and p: "1 \<le> prec fmt"
  shows "rnd fmt s a = Infinity s \<or> rnd fmt s a = Finite s 0 \<or>
         (\<exists>m k. 0 < m \<and> m < 2 ^ prec fmt \<and> 2 - emax fmt - int (prec fmt) \<le> k \<and>
                of_int m * 2 powi k < (2::rat) powi (emax fmt + 1) \<and>
                rnd fmt s a = Finite s (of_int m * 2 powi k))"
proof -
  define e where "e = max (ilog2 a) (1 - emax fmt)"
  define j where "j = e - int (prec fmt) + 1"
  define m where "m = round_even (a / 2 powi j)"
  have ej: "e + 1 = int (prec fmt) + j" by (simp add: j_def)
  have "a < 2 powi (ilog2 a + 1)" using a0 by (rule ilog2_bounds)
  also have "\<dots> \<le> 2 powi (e + 1)"
    by (rule power_int_increasing) (simp_all add: e_def)
  also have "\<dots> = of_int (2 ^ prec fmt) * 2 powi j"
    unfolding ej by (simp add: power_int_add)
  finally have qhi: "a / 2 powi j < of_int (2 ^ prec fmt)"
    by (simp add: pos_divide_less_eq)
  have qlo: "0 \<le> a / 2 powi j" using a0 by simp
  have m0: "0 \<le> m" unfolding m_def using qlo qhi by (rule round_even_bounds)
  have mN: "m \<le> 2 ^ prec fmt" unfolding m_def using qlo qhi by (rule round_even_bounds)
  have r: "rnd fmt s a =
        (if 2 powi (emax fmt + 1) \<le> of_int m * (2::rat) powi j then Infinity s
         else Finite s (of_int m * 2 powi j))"
    using a0 unfolding rnd_def Let_def e_def [symmetric] j_def [symmetric] m_def [symmetric]
    by simp
  have jlo: "2 - emax fmt - int (prec fmt) \<le> j" by (simp add: j_def e_def)
  show ?thesis
  proof (cases "2 powi (emax fmt + 1) \<le> of_int m * (2::rat) powi j")
    case True
    with r show ?thesis by simp
  next
    case False
    with r have fin: "rnd fmt s a = Finite s (of_int m * 2 powi j)" by simp
    from False have ov: "of_int m * 2 powi j < (2::rat) powi (emax fmt + 1)" by simp
    consider "m = 0" | "0 < m" "m < 2 ^ prec fmt" | "m = 2 ^ prec fmt"
      using m0 mN by linarith
    then show ?thesis
    proof cases
      case 1
      with fin show ?thesis by simp
    next
      case 2
      with fin ov jlo show ?thesis by blast
    next
      case 3
      obtain p' where p': "prec fmt = Suc p'" using p by (cases "prec fmt") simp_all
      have eq: "of_int m * (2::rat) powi j = of_int (2 ^ p') * 2 powi (j + 1)"
        by (simp add: 3 p' power_int_add)
      have "(0::int) < 2 ^ p'" "(2::int) ^ p' < 2 ^ prec fmt" by (simp_all add: p')
      moreover have "2 - emax fmt - int (prec fmt) \<le> j + 1" using jlo by simp
      moreover have "of_int (2 ^ p') * 2 powi (j + 1) < (2::rat) powi (emax fmt + 1)"
        using ov by (simp only: eq)
      moreover have "rnd fmt s a = Finite s (of_int (2 ^ p') * 2 powi (j + 1))"
        using fin by (simp only: eq)
      ultimately show ?thesis by blast
    qed
  qed
qed

lemma rnd_idem:
  assumes "0 \<le> a" and "1 \<le> prec fmt" and "rnd fmt s a = Finite s r"
  shows "rnd fmt t r = Finite t r" and "0 \<le> r"
proof -
  have "rnd fmt t r = Finite t r \<and> 0 \<le> r"
  proof (cases "a = 0")
    case True
    with assms(3) have "r = 0" by (simp add: rnd_def)
    then show ?thesis by (simp add: rnd_def)
  next
    case False
    with assms(1) have "0 < a" by simp
    from rnd_cases [OF this assms(2), of s] assms(3)
    consider "r = 0"
      | m k where "0 < m" "m < 2 ^ prec fmt" "2 - emax fmt - int (prec fmt) \<le> k"
          "of_int m * 2 powi k < (2::rat) powi (emax fmt + 1)" "r = of_int m * 2 powi k"
      by auto
    then show ?thesis
    proof cases
      case 1 then show ?thesis by (simp add: rnd_def)
    next
      case 2
      then show ?thesis using rnd_exact [of m fmt k t] by simp
    qed
  qed
  then show "rnd fmt t r = Finite t r" and "0 \<le> r" by simp_all
qed

text \<open>
  Subtracting the literal \<open>0\<close> from a quotient leaves the quotient: \<open>FloorDivide\<close>
  subtracts one or nothing.
\<close>

lemma rnd_result:
  "rnd fmt s a = Infinity s \<or> (\<exists>r. rnd fmt s a = Finite s r)"
  by (simp add: rnd_def Let_def)

lemma fadd_zero_rnd:
  assumes "0 \<le> a" and "1 \<le> prec fmt"
  shows "fadd fmt (rnd fmt s a) (Finite True 0) = rnd fmt s a"
proof -
  from rnd_result [of fmt s a] show ?thesis
  proof
    assume "rnd fmt s a = Infinity s"
    then show ?thesis by simp
  next
    assume "\<exists>r. rnd fmt s a = Finite s r"
    then obtain r where r: "rnd fmt s a = Finite s r" ..
    from rnd_idem [OF assms r] have i: "\<And>t. rnd fmt t r = Finite t r" and r0: "0 \<le> r"
      by simp_all
    show ?thesis
    proof (cases "r = 0")
      case True
      then show ?thesis by (simp add: r signed_val_def)
    next
      case False
      with r0 have "0 < r" by simp
      then show ?thesis using i by (simp add: r signed_val_def Let_def)
    qed
  qed
qed

lemma wf_rnd:
  assumes "0 \<le> a" and "1 \<le> prec fmt"
  shows "wf_fp (rnd fmt s a)"
proof -
  from rnd_result [of fmt s a] show ?thesis
  proof
    assume "rnd fmt s a = Infinity s"
    then show ?thesis by simp
  next
    assume "\<exists>r. rnd fmt s a = Finite s r"
    then obtain r where r: "rnd fmt s a = Finite s r" ..
    from rnd_idem(2) [OF assms r] show ?thesis by (simp add: r)
  qed
qed

lemma wf_fadd:
  assumes "1 \<le> prec fmt"
  shows "wf_fp (fadd fmt x y)"
  by (cases x; cases y) (simp_all add: Let_def wf_rnd [OF _ assms])

lemma fsub_zero_fdiv:
  assumes "wf_fp a" and "wf_fp y" and "1 \<le> prec fmt"
  shows "fsub fmt (fdiv fmt a y) (Finite False 0) = fdiv fmt a y"
proof (cases a)
  case NaN
  then show ?thesis by (simp add: fsub_def)
next
  case (Infinity s)
  then show ?thesis by (cases y) (simp_all add: fsub_def)
next
  case (Finite s u)
  show ?thesis
  proof (cases y)
    case NaN
    then show ?thesis by (simp add: fsub_def Finite)
  next
    case (Infinity t)
    then show ?thesis by (simp add: fsub_def Finite signed_val_def)
  next
    case (Finite t b)
    from assms(1,2) have "0 \<le> u" "0 \<le> b" by (simp_all add: \<open>a = Finite s u\<close> Finite)
    then have "0 \<le> u / b" by simp
    then show ?thesis
      using fadd_zero_rnd [OF _ assms(3), of "u / b" "s \<noteq> t"]
      by (simp add: fsub_def \<open>a = Finite s u\<close> Finite)
  qed
qed

text \<open>
  The small integers are values of the three formats, which evaluates the examples of
  the spec without unfolding the rounding.
\<close>

lemma prec_binary: "1 \<le> prec binary16" "1 \<le> prec binary32" "1 \<le> prec binary64"
  by (simp_all add: binary16_def binary32_def binary64_def)

lemma fp_of_int_0: "fp_of_int fmt 0 = Finite False 0"
  by (simp add: fp_of_int_def rnd_def)

lemma rnd_small_int:
  fixes n :: int
  assumes "0 < n" and "n < 2048" and "fmt = binary16 \<or> fmt = binary32 \<or> fmt = binary64"
  shows "rnd fmt s (of_int n) = Finite s (of_int n)"
proof -
  have p: "11 \<le> prec fmt" and e: "15 \<le> emax fmt" and l: "2 - emax fmt - int (prec fmt) \<le> 0"
    using assms(3) by (auto simp: binary16_def binary32_def binary64_def)
  have "n < 2 ^ 11" using assms(2) by simp
  also have "(2::int) ^ 11 \<le> 2 ^ prec fmt" using p by (intro power_increasing) simp_all
  finally have m: "n < 2 ^ prec fmt" .
  have "(of_int n :: rat) < 2 powi 11" using assms(2) by simp
  also have "(2::rat) powi 11 \<le> 2 powi (emax fmt + 1)"
    using e by (intro power_int_increasing) simp_all
  finally have "of_int n * 2 powi 0 < (2::rat) powi (emax fmt + 1)" by simp
  from rnd_exact [OF assms(1) m l this, of s] show ?thesis by simp
qed

lemma fp_of_int_1:
  "fp_of_int binary32 1 = Finite False 1" "fp_of_int binary64 1 = Finite False 1"
  using rnd_small_int [of 1 binary32 False] rnd_small_int [of 1 binary64 False]
  by (simp_all add: fp_of_int_def)

lemma rnd_small_values:
  assumes "fmt = binary16 \<or> fmt = binary32 \<or> fmt = binary64"
  shows "rnd fmt s 3 = Finite s 3" "rnd fmt s 4 = Finite s 4" "rnd fmt s 6 = Finite s 6"
  using rnd_small_int [of 3 fmt s] rnd_small_int [of 4 fmt s] rnd_small_int [of 6 fmt s] assms
  by simp_all

lemma fmod_examples:
  "fmod (Finite False (15 / 2)) (Finite True 2) = Finite False (3 / 2)"
  "fmod (Finite True (15 / 2)) (Finite False 2) = Finite True (3 / 2)"
  by code_simp+

lemma FloorDivide_float_examples:
  "FloorDivide_float (Finite False (15 / 2)) (Finite True 2) = Finite True 4"
  "FloorDivide_float (Finite True (15 / 2)) (Finite False 2) = Finite True 4"
  unfolding FloorDivide_float_def Let_def fmod_examples
  by (simp_all add: fsub_def fp_of_int_0 fp_of_int_1 signed_val_def rnd_small_values)

lemma FloorDivide_double_examples:
  "FloorDivide_double (Finite False (15 / 2)) (Finite True 2) = Finite True 4"
  "FloorDivide_double (Finite True (15 / 2)) (Finite False 2) = Finite True 4"
  unfolding FloorDivide_double_def Let_def fmod_examples
  by (simp_all add: fsub_def fp_of_int_0 fp_of_int_1 signed_val_def rnd_small_values)

text \<open>
  The floating-point overloads in the words of the spec: the quotient
  \<open>(x - fmod(x, y)) / y\<close>, less one exactly when the signs disagree.
\<close>

lemma FloorDivide_float_split:
  assumes "wf_fp y"
  shows "FloorDivide_float x y =
     (if sign_disagrees (fmod x y) y
      then fsub binary32 (fdiv binary32 (fsub binary32 x (fmod x y)) y) (Finite False 1)
      else fdiv binary32 (fsub binary32 x (fmod x y)) y)"
proof -
  have "wf_fp (fsub binary32 x (fmod x y))"
    unfolding fsub_def by (rule wf_fadd) (rule prec_binary)
  from fsub_zero_fdiv [OF this assms prec_binary(2)] show ?thesis
    by (simp add: FloorDivide_float_def sign_disagrees_def fp_of_int_0 fp_of_int_1 Let_def)
qed

lemma FloorDivide_double_split:
  assumes "wf_fp y"
  shows "FloorDivide_double x y =
     (if sign_disagrees (fmod x y) y
      then fsub binary64 (fdiv binary64 (fsub binary64 x (fmod x y)) y) (Finite False 1)
      else fdiv binary64 (fsub binary64 x (fmod x y)) y)"
proof -
  have "wf_fp (fsub binary64 x (fmod x y))"
    unfolding fsub_def by (rule wf_fadd) (rule prec_binary)
  from fsub_zero_fdiv [OF this assms prec_binary(3)] show ?thesis
    by (simp add: FloorDivide_double_def sign_disagrees_def fp_of_int_0 fp_of_int_1 Let_def)
qed

text \<open>
  With a zero divisor the remainder is NaN, and so is everything computed from it.
\<close>

lemma FloorDivide_float_zero: "FloorDivide_float x (Finite s 0) = NaN"
  by (cases x) (simp_all add: FloorDivide_float_def fsub_def)

lemma FloorDivide_double_zero: "FloorDivide_double x (Finite s 0) = NaN"
  by (cases x) (simp_all add: FloorDivide_double_def fsub_def)

text \<open>A value that is not representable is rounded: \<open>0.1\<close> as a \<open>float\<close>.\<close>

lemma rnd_one_tenth: "rnd binary32 False (1 / 10) = Finite False (13421773 / 134217728)"
  by code_simp

section \<open>Properties of the floating-point floor division\<close>

text \<open>
  C4 (as amended). The zero-divisor convention holds on every integer path:
  \<open>FloorDivide(a, 0)\<close> is \<open>0\<close> for \<open>int8\<close>, \<open>int16\<close>, \<open>int32\<close>, \<open>int64\<close> and
  \<open>uint8\<close>. The floating-point paths (\<open>float\<close>, \<open>double\<close>, \<open>Float16\<close>) have no
  guard: for every \<open>a\<close> and either zero as the divisor the result is NaN.
\<close>

theorem FloorDivide_zero_convention:
  "FloorDivide_int8 a8 0 = Some 0 \<and> FloorDivide_int16 a16 0 = Some 0 \<and>
   FloorDivide_int32 a32 0 = Some 0 \<and> FloorDivide_int64 a64 0 = Some 0 \<and>
   FloorDivide_uint8 u8 0 = Some 0 \<and>
   FloorDivide_float x (Finite s 0) = NaN \<and>
   FloorDivide_double x (Finite s 0) = NaN \<and>
   FloorDivide_float16 x (Finite s 0) = NaN"
  by (simp add: FloorDivide_int8_def FloorDivide_int16_def FloorDivide_int32_def
      FloorDivide_int64_def FloorDivide_uint8_def FloorDivide_float_zero FloorDivide_double_zero
      FloorDivide_float16_def Float16_to_float_def)

text \<open>
  C4 as stated fails on the floating-point paths: \<open>FloorDivide(1.0, 0.0)\<close> is NaN, not
  \<open>0\<close>, at \<open>float\<close>, \<open>double\<close> and \<open>Float16\<close>.
\<close>

theorem FloorDivide_float_zero_counterexample:
  "FloorDivide_float (Finite False 1) (Finite False 0) = NaN \<and>
   FloorDivide_double (Finite False 1) (Finite False 0) = NaN \<and>
   FloorDivide_float16 (Finite False 1) (Finite False 0) = NaN \<and>
   NaN \<noteq> Finite False 0 \<and> NaN \<noteq> Finite True 0"
  by (simp add: FloorDivide_float_def FloorDivide_double_def FloorDivide_float16_def
      Float16_to_float_def fsub_def)

text \<open>
  C9. At \<open>float\<close> and \<open>double\<close>, \<open>FloorDivide(x, y)\<close> is \<open>(x - fmod(x, y)) / y\<close>,
  less one exactly when the sign of the remainder disagrees with the sign of the
  divisor; \<open>FloorDivide(7.5, -2.0)\<close> and \<open>FloorDivide(-7.5, 2.0)\<close> are \<open>-4.0\<close>;
  the \<open>Float16\<close> overload promotes both operands to \<open>float\<close>, applies the \<open>float\<close>
  rule and narrows the result.
\<close>

theorem FloorDivide_floating_rule:
  "(wf_fp y \<longrightarrow>
      FloorDivide_float x y =
        (if sign_disagrees (fmod x y) y
         then fsub binary32 (fdiv binary32 (fsub binary32 x (fmod x y)) y) (Finite False 1)
         else fdiv binary32 (fsub binary32 x (fmod x y)) y)) \<and>
   (wf_fp y \<longrightarrow>
      FloorDivide_double x y =
        (if sign_disagrees (fmod x y) y
         then fsub binary64 (fdiv binary64 (fsub binary64 x (fmod x y)) y) (Finite False 1)
         else fdiv binary64 (fsub binary64 x (fmod x y)) y)) \<and>
   FloorDivide_float (Finite False (15 / 2)) (Finite True 2) = Finite True 4 \<and>
   FloorDivide_float (Finite True (15 / 2)) (Finite False 2) = Finite True 4 \<and>
   FloorDivide_double (Finite False (15 / 2)) (Finite True 2) = Finite True 4 \<and>
   FloorDivide_double (Finite True (15 / 2)) (Finite False 2) = Finite True 4 \<and>
   FloorDivide_float16 x y =
     Float16_of_float (FloorDivide_float (Float16_to_float x) (Float16_to_float y)) \<and>
   Float16_to_float x = x \<and>
   Float16_of_float (Finite True 4) = Finite True 4"
  using FloorDivide_float_split [of y x] FloorDivide_double_split [of y x]
    rnd_small_values(2) [of binary16 True]
  by (simp add: FloorDivide_float_examples FloorDivide_double_examples FloorDivide_float16_def
      Float16_to_float_def)

text \<open>
  The rule at \<open>x = 7.5\<close>, \<open>y = -2.0\<close>: the remainder is \<open>1.5\<close>, its sign disagrees
  with that of the divisor, and one is subtracted from \<open>(7.5 - 1.5) / -2.0\<close>.
\<close>

theorem FloorDivide_floating_rule_witness:
  "wf_fp (Finite True 2) \<and>
   fmod (Finite False (15 / 2)) (Finite True 2) = Finite False (3 / 2) \<and>
   sign_disagrees (Finite False (3 / 2)) (Finite True 2) \<and>
   FloorDivide_float (Finite False (15 / 2)) (Finite True 2)
     = fsub binary32
         (fdiv binary32 (fsub binary32 (Finite False (15 / 2)) (Finite False (3 / 2))) (Finite True 2))
         (Finite False 1) \<and>
   FloorDivide_double (Finite False (15 / 2)) (Finite True 2)
     = fsub binary64
         (fdiv binary64 (fsub binary64 (Finite False (15 / 2)) (Finite False (3 / 2))) (Finite True 2))
         (Finite False 1)"
proof -
  have w: "wf_fp (Finite True 2)" by simp
  have s: "sign_disagrees (Finite False (3 / 2)) (Finite True 2)"
    by (simp add: sign_disagrees_def signed_val_def)
  note r = FloorDivide_floating_rule [of "Finite True 2" "Finite False (15 / 2)",
      unfolded fmod_examples]
  from r w s have a: "FloorDivide_float (Finite False (15 / 2)) (Finite True 2)
     = fsub binary32
         (fdiv binary32 (fsub binary32 (Finite False (15 / 2)) (Finite False (3 / 2))) (Finite True 2))
         (Finite False 1)"
    by (simp only: if_True simp_thms)
  from r w s have b: "FloorDivide_double (Finite False (15 / 2)) (Finite True 2)
     = fsub binary64
         (fdiv binary64 (fsub binary64 (Finite False (15 / 2)) (Finite False (3 / 2))) (Finite True 2))
         (Finite False 1)"
    by (simp only: if_True simp_thms)
  from w fmod_examples(1) s a b show ?thesis by (intro conjI)
qed

section \<open>Properties of the kernels\<close>

text \<open>Each kernel is the shared body at its visitor and its per-element statement.\<close>

lemma array_scalar_kernels:
  "NativeAddASKernel_Call ext = ArrayScalar_Call ext VisitDtype (\<lambda>x1 x2. Inr (ArithmeticOps_Add ext x1 x2))"
  "NativeSubtractASKernel_Call ext = ArrayScalar_Call ext VisitNumericDtype (\<lambda>x1 x2. Inr (ArithmeticOps_Subtract ext x1 x2))"
  "NativeMultiplyASKernel_Call ext = ArrayScalar_Call ext VisitDtype (\<lambda>x1 x2. Inr (ArithmeticOps_Multiply ext x1 x2))"
  "NativeFloorDivideASKernel_Call ext = ArrayScalar_Call ext VisitNumericDtype FloorDivide_element"
  "NativeDivideASKernel_Call ext = ArrayScalar_Call ext VisitDtype (\<lambda>x1 x2. Inr (ArithmeticOps_Divide ext x1 x2))"
  "NativeBitwiseAndASKernel_Call ext = ArrayScalar_Call ext VisitIntegralDtype BitwiseAnd_element"
  "NativeBitwiseOrASKernel_Call ext = ArrayScalar_Call ext VisitIntegralDtype BitwiseOr_element"
  "NativeBitwiseXorASKernel_Call ext = ArrayScalar_Call ext VisitIntegralDtype BitwiseXor_element"
  by (intro ext, simp add: NativeAddASKernel_Call_def NativeSubtractASKernel_Call_def NativeMultiplyASKernel_Call_def NativeFloorDivideASKernel_Call_def NativeDivideASKernel_Call_def NativeBitwiseAndASKernel_Call_def NativeBitwiseOrASKernel_Call_def NativeBitwiseXorASKernel_Call_def
      ArrayScalar_Call_def)+

lemma scalar_array_kernels:
  "NativeFloorDivideSAKernel_Call ext = ScalarArray_Call ext VisitNumericDtype FloorDivide_element"
  "NativeDivideSAKernel_Call ext = ScalarArray_Call ext VisitDtype (\<lambda>x1 x2. Inr (ArithmeticOps_Divide ext x1 x2))"
  by (intro ext, simp add: NativeFloorDivideSAKernel_Call_def NativeDivideSAKernel_Call_def
      ScalarArray_Call_def)+

lemma array_array_kernels:
  "AddKernel_Call ext = ELTWISE_DTYPE_BINARY_KERNEL ext (\<lambda>x1 x2. Inr (ArithmeticOps_Add ext x1 x2)) VisitDtype"
  "SubtractKernel_Call ext = ELTWISE_DTYPE_BINARY_KERNEL ext (\<lambda>x1 x2. Inr (ArithmeticOps_Subtract ext x1 x2)) VisitNumericDtype"
  "MultiplyKernel_Call ext = ELTWISE_DTYPE_BINARY_KERNEL ext (\<lambda>x1 x2. Inr (ArithmeticOps_Multiply ext x1 x2)) VisitDtype"
  "FloorDivideKernel_Call ext = ELTWISE_DTYPE_BINARY_KERNEL ext FloorDivide_element VisitNumericDtype"
  "DivideKernel_Call ext = ELTWISE_DTYPE_BINARY_KERNEL ext (\<lambda>x1 x2. Inr (ArithmeticOps_Divide ext x1 x2)) VisitDtype"
  "BitwiseAndKernel_Call ext = ELTWISE_DTYPE_BINARY_KERNEL ext BitwiseAnd_element VisitIntegralDtype"
  "BitwiseOrKernel_Call ext = ELTWISE_DTYPE_BINARY_KERNEL ext BitwiseOr_element VisitIntegralDtype"
  "BitwiseXorKernel_Call ext = ELTWISE_DTYPE_BINARY_KERNEL ext BitwiseXor_element VisitIntegralDtype"
  by (simp_all add: AddKernel_Call_def SubtractKernel_Call_def MultiplyKernel_Call_def FloorDivideKernel_Call_def DivideKernel_Call_def BitwiseAndKernel_Call_def BitwiseOrKernel_Call_def BitwiseXorKernel_Call_def
      ELTWISE_BINARY_KERNEL_def)

lemmas kernel_shapes = array_scalar_kernels scalar_array_kernels array_array_kernels

lemmas int_eval = FloorDivide_int32_def std_div_def representable_def
  word_sle_eq word_sless_alt signed_divide_int_def signed_modulo_int_def

text \<open>A visitor that fails at the output's element type makes the call fail.\<close>

lemma ArrayScalar_Call_reject:
  assumes "\<And>f. visit T f = Inl (ContractViolation DtypeOutsideSubset)"
  shows "ArrayScalar_Call ext visit body x1 s (out\<lparr>dtype := T\<rparr>)
           = Inl (ContractViolation
                   (if device out = device x1 then DtypeOutsideSubset else IncompatibleDevices))"
  using assms by (simp add: ArrayScalar_Call_def CheckDevicesCompatible_def Let_def)

lemma ScalarArray_Call_reject:
  assumes "\<And>f. visit T f = Inl (ContractViolation DtypeOutsideSubset)"
  shows "ScalarArray_Call ext visit body s x2 (out\<lparr>dtype := T\<rparr>)
           = Inl (ContractViolation
                   (if device out = device x2 then DtypeOutsideSubset else IncompatibleDevices))"
  using assms by (simp add: ScalarArray_Call_def CheckDevicesCompatible_def Let_def)

lemma ELTWISE_DTYPE_BINARY_KERNEL_reject:
  assumes "\<And>f. visit T f = Inl (ContractViolation DtypeOutsideSubset)"
  shows "ELTWISE_DTYPE_BINARY_KERNEL ext body visit x1 x2 (out\<lparr>dtype := T\<rparr>)
           = Inl (ContractViolation
                   (if device x2 = device x1 \<and> device out = device x1
                    then DtypeOutsideSubset else IncompatibleDevices))"
  using assms by (simp add: ELTWISE_DTYPE_BINARY_KERNEL_def CheckDevicesCompatible_def Let_def)

text \<open>
  A visitor that calls its function at the output's element type lets a statement that
  cannot fail write one result per index.
\<close>

lemma collect_map_Inr: "collect (map (\<lambda>x. Inr (f x)) xs) = Inr (map f xs)"
  by (induction xs) simp_all

lemma ArrayScalar_Call_accept:
  assumes "\<And>f. visit T f = f T" and "dtype_of s = T" and "length xs = length zs"
  shows "ArrayScalar_Call ext visit (\<lambda>a b. Inr (g a b))
           \<lparr>dtype = T, device = d, elems = xs\<rparr> s \<lparr>dtype = T, device = d, elems = zs\<rparr>
         = Inr \<lparr>dtype = T, device = d, elems = map (\<lambda>a. g a s) xs\<rparr>"
  using assms
  by (simp add: ArrayScalar_Call_def CheckDevicesCompatible_def Elementwise1_def Scalar_cast_def
      collect_map_Inr)

lemma ScalarArray_Call_accept:
  assumes "\<And>f. visit T f = f T" and "dtype_of s = T" and "length xs = length zs"
  shows "ScalarArray_Call ext visit (\<lambda>a b. Inr (g a b))
           s \<lparr>dtype = T, device = d, elems = xs\<rparr> \<lparr>dtype = T, device = d, elems = zs\<rparr>
         = Inr \<lparr>dtype = T, device = d, elems = map (\<lambda>b. g s b) xs\<rparr>"
  using assms
  by (simp add: ScalarArray_Call_def CheckDevicesCompatible_def Elementwise1_def Scalar_cast_def
      collect_map_Inr)

lemma ELTWISE_DTYPE_BINARY_KERNEL_accept:
  assumes "\<And>f. visit T f = f T" and "length xs = length zs" and "length ys = length zs"
  shows "ELTWISE_DTYPE_BINARY_KERNEL ext (\<lambda>a b. Inr (g a b)) visit
           \<lparr>dtype = T, device = d, elems = xs\<rparr> \<lparr>dtype = T, device = d, elems = ys\<rparr>
           \<lparr>dtype = T, device = d, elems = zs\<rparr>
         = Inr \<lparr>dtype = T, device = d, elems = map (\<lambda>(a, b). g a b) (zip xs ys)\<rparr>"
proof -
  have "collect (map (\<lambda>(a, b). Inr (g a b)) (zip xs ys)) = Inr (map (\<lambda>(a, b). g a b) (zip xs ys))"
    using collect_map_Inr [of "\<lambda>(a, b). g a b" "zip xs ys"] by (simp add: case_prod_unfold)
  then show ?thesis
    using assms
    by (simp add: ELTWISE_DTYPE_BINARY_KERNEL_def CheckDevicesCompatible_def Elementwise2_def)
qed

lemma VisitNumericDtype_Bool:
  "VisitNumericDtype Bool f = Inl (ContractViolation DtypeOutsideSubset)"
  by simp

lemma VisitIntegralDtype_floating:
  "T = Float16 \<or> T = Float32 \<or> T = Float64 \<Longrightarrow>
   VisitIntegralDtype T f = Inl (ContractViolation DtypeOutsideSubset)"
  by auto

text \<open>
  On one-element tensors of the output's type, a scalar of that type on the right or on
  the left gives what the array-array kernel gives on the tensor of that scalar.
\<close>

lemma scalar_right_VisitDtype:
  assumes "dtype_of x2 = T"
  shows "ArrayScalar_Call ext VisitDtype body \<lparr>dtype = T, device = d, elems = [x1]\<rparr> x2
           \<lparr>dtype = T, device = d, elems = [z]\<rparr>
         = ELTWISE_DTYPE_BINARY_KERNEL ext body VisitDtype \<lparr>dtype = T, device = d, elems = [x1]\<rparr>
             \<lparr>dtype = T, device = d, elems = [x2]\<rparr> \<lparr>dtype = T, device = d, elems = [z]\<rparr>"
  using assms
  by (simp add: ArrayScalar_Call_def ELTWISE_DTYPE_BINARY_KERNEL_def CheckDevicesCompatible_def
      Elementwise1_def Elementwise2_def Scalar_cast_def)

lemma scalar_right_VisitNumericDtype:
  assumes "dtype_of x2 = T"
  shows "ArrayScalar_Call ext VisitNumericDtype body \<lparr>dtype = T, device = d, elems = [x1]\<rparr> x2
           \<lparr>dtype = T, device = d, elems = [z]\<rparr>
         = ELTWISE_DTYPE_BINARY_KERNEL ext body VisitNumericDtype \<lparr>dtype = T, device = d, elems = [x1]\<rparr>
             \<lparr>dtype = T, device = d, elems = [x2]\<rparr> \<lparr>dtype = T, device = d, elems = [z]\<rparr>"
  using assms
  by (cases T)
    (simp_all add: ArrayScalar_Call_def ELTWISE_DTYPE_BINARY_KERNEL_def CheckDevicesCompatible_def
      Elementwise1_def Elementwise2_def Scalar_cast_def)

lemma scalar_right_VisitIntegralDtype:
  assumes "dtype_of x2 = T"
  shows "ArrayScalar_Call ext VisitIntegralDtype body \<lparr>dtype = T, device = d, elems = [x1]\<rparr> x2
           \<lparr>dtype = T, device = d, elems = [z]\<rparr>
         = ELTWISE_DTYPE_BINARY_KERNEL ext body VisitIntegralDtype \<lparr>dtype = T, device = d, elems = [x1]\<rparr>
             \<lparr>dtype = T, device = d, elems = [x2]\<rparr> \<lparr>dtype = T, device = d, elems = [z]\<rparr>"
  using assms
  by (cases T)
    (simp_all add: ArrayScalar_Call_def ELTWISE_DTYPE_BINARY_KERNEL_def CheckDevicesCompatible_def
      Elementwise1_def Elementwise2_def Scalar_cast_def)

lemma scalar_left_VisitDtype:
  assumes "dtype_of x1 = T"
  shows "ScalarArray_Call ext VisitDtype body x1 \<lparr>dtype = T, device = d, elems = [x2]\<rparr>
           \<lparr>dtype = T, device = d, elems = [z]\<rparr>
         = ELTWISE_DTYPE_BINARY_KERNEL ext body VisitDtype \<lparr>dtype = T, device = d, elems = [x1]\<rparr>
             \<lparr>dtype = T, device = d, elems = [x2]\<rparr> \<lparr>dtype = T, device = d, elems = [z]\<rparr>"
  using assms
  by (simp add: ScalarArray_Call_def ELTWISE_DTYPE_BINARY_KERNEL_def CheckDevicesCompatible_def
      Elementwise1_def Elementwise2_def Scalar_cast_def)

lemma scalar_left_VisitNumericDtype:
  assumes "dtype_of x1 = T"
  shows "ScalarArray_Call ext VisitNumericDtype body x1 \<lparr>dtype = T, device = d, elems = [x2]\<rparr>
           \<lparr>dtype = T, device = d, elems = [z]\<rparr>
         = ELTWISE_DTYPE_BINARY_KERNEL ext body VisitNumericDtype \<lparr>dtype = T, device = d, elems = [x1]\<rparr>
             \<lparr>dtype = T, device = d, elems = [x2]\<rparr> \<lparr>dtype = T, device = d, elems = [z]\<rparr>"
  using assms
  by (cases T)
    (simp_all add: ScalarArray_Call_def ELTWISE_DTYPE_BINARY_KERNEL_def CheckDevicesCompatible_def
      Elementwise1_def Elementwise2_def Scalar_cast_def)

text \<open>
  C3 (as amended). The Subtract and FloorDivide kernels (array-array and scalar variants)
  dispatch over the numeric element types only: with a \<open>Bool\<close> output each of them
  fails with a contract violation (of the devices when they differ, of the dispatch
  otherwise). The Add, Multiply and Divide kernels (array-array and scalar variants) use
  the full visitor: at every element type, \<open>Bool\<close> included, they write one result per
  index.
\<close>

theorem numeric_dispatch_subsets:
  assumes "dtype_of s = T" and "length xs = length zs" and "length ys = length zs"
  shows
    "SubtractKernel_Call ext x1 x2 (out\<lparr>dtype := Bool\<rparr>)
       = Inl (ContractViolation
             (if device x2 = device x1 \<and> device out = device x1
              then DtypeOutsideSubset else IncompatibleDevices)) \<and>
     NativeSubtractASKernel_Call ext x1 c (out\<lparr>dtype := Bool\<rparr>)
       = Inl (ContractViolation
             (if device out = device x1 then DtypeOutsideSubset else IncompatibleDevices)) \<and>
     FloorDivideKernel_Call ext x1 x2 (out\<lparr>dtype := Bool\<rparr>)
       = Inl (ContractViolation
             (if device x2 = device x1 \<and> device out = device x1
              then DtypeOutsideSubset else IncompatibleDevices)) \<and>
     NativeFloorDivideASKernel_Call ext x1 c (out\<lparr>dtype := Bool\<rparr>)
       = Inl (ContractViolation
             (if device out = device x1 then DtypeOutsideSubset else IncompatibleDevices)) \<and>
     NativeFloorDivideSAKernel_Call ext c x2 (out\<lparr>dtype := Bool\<rparr>)
       = Inl (ContractViolation
             (if device out = device x2 then DtypeOutsideSubset else IncompatibleDevices)) \<and>
     AddKernel_Call ext \<lparr>dtype = T, device = d, elems = xs\<rparr> \<lparr>dtype = T, device = d, elems = ys\<rparr>
         \<lparr>dtype = T, device = d, elems = zs\<rparr>
       = Inr \<lparr>dtype = T, device = d, elems = map (\<lambda>(a, b). ArithmeticOps_Add ext a b) (zip xs ys)\<rparr> \<and>
     NativeAddASKernel_Call ext \<lparr>dtype = T, device = d, elems = xs\<rparr> s
         \<lparr>dtype = T, device = d, elems = zs\<rparr>
       = Inr \<lparr>dtype = T, device = d, elems = map (\<lambda>a. ArithmeticOps_Add ext a s) xs\<rparr> \<and>
     MultiplyKernel_Call ext \<lparr>dtype = T, device = d, elems = xs\<rparr> \<lparr>dtype = T, device = d, elems = ys\<rparr>
         \<lparr>dtype = T, device = d, elems = zs\<rparr>
       = Inr \<lparr>dtype = T, device = d, elems = map (\<lambda>(a, b). ArithmeticOps_Multiply ext a b) (zip xs ys)\<rparr> \<and>
     NativeMultiplyASKernel_Call ext \<lparr>dtype = T, device = d, elems = xs\<rparr> s
         \<lparr>dtype = T, device = d, elems = zs\<rparr>
       = Inr \<lparr>dtype = T, device = d, elems = map (\<lambda>a. ArithmeticOps_Multiply ext a s) xs\<rparr> \<and>
     DivideKernel_Call ext \<lparr>dtype = T, device = d, elems = xs\<rparr> \<lparr>dtype = T, device = d, elems = ys\<rparr>
         \<lparr>dtype = T, device = d, elems = zs\<rparr>
       = Inr \<lparr>dtype = T, device = d, elems = map (\<lambda>(a, b). ArithmeticOps_Divide ext a b) (zip xs ys)\<rparr> \<and>
     NativeDivideASKernel_Call ext \<lparr>dtype = T, device = d, elems = xs\<rparr> s
         \<lparr>dtype = T, device = d, elems = zs\<rparr>
       = Inr \<lparr>dtype = T, device = d, elems = map (\<lambda>a. ArithmeticOps_Divide ext a s) xs\<rparr> \<and>
     NativeDivideSAKernel_Call ext s \<lparr>dtype = T, device = d, elems = xs\<rparr>
         \<lparr>dtype = T, device = d, elems = zs\<rparr>
       = Inr \<lparr>dtype = T, device = d, elems = map (\<lambda>b. ArithmeticOps_Divide ext s b) xs\<rparr>"
proof (intro conjI)
  show "SubtractKernel_Call ext x1 x2 (out\<lparr>dtype := Bool\<rparr>)
       = Inl (ContractViolation
             (if device x2 = device x1 \<and> device out = device x1
              then DtypeOutsideSubset else IncompatibleDevices))"
    unfolding kernel_shapes by (rule ELTWISE_DTYPE_BINARY_KERNEL_reject) simp
  show "NativeSubtractASKernel_Call ext x1 c (out\<lparr>dtype := Bool\<rparr>)
       = Inl (ContractViolation
             (if device out = device x1 then DtypeOutsideSubset else IncompatibleDevices))"
    unfolding kernel_shapes by (rule ArrayScalar_Call_reject) simp
  show "FloorDivideKernel_Call ext x1 x2 (out\<lparr>dtype := Bool\<rparr>)
       = Inl (ContractViolation
             (if device x2 = device x1 \<and> device out = device x1
              then DtypeOutsideSubset else IncompatibleDevices))"
    unfolding kernel_shapes by (rule ELTWISE_DTYPE_BINARY_KERNEL_reject) simp
  show "NativeFloorDivideASKernel_Call ext x1 c (out\<lparr>dtype := Bool\<rparr>)
       = Inl (ContractViolation
             (if device out = device x1 then DtypeOutsideSubset else IncompatibleDevices))"
    unfolding kernel_shapes by (rule ArrayScalar_Call_reject) simp
  show "NativeFloorDivideSAKernel_Call ext c x2 (out\<lparr>dtype := Bool\<rparr>)
       = Inl (ContractViolation
             (if device out = device x2 then DtypeOutsideSubset else IncompatibleDevices))"
    unfolding kernel_shapes by (rule ScalarArray_Call_reject) simp
  show "AddKernel_Call ext \<lparr>dtype = T, device = d, elems = xs\<rparr> \<lparr>dtype = T, device = d, elems = ys\<rparr>
         \<lparr>dtype = T, device = d, elems = zs\<rparr>
       = Inr \<lparr>dtype = T, device = d, elems = map (\<lambda>(a, b). ArithmeticOps_Add ext a b) (zip xs ys)\<rparr>"
    unfolding kernel_shapes using assms by (intro ELTWISE_DTYPE_BINARY_KERNEL_accept) simp_all
  show "NativeAddASKernel_Call ext \<lparr>dtype = T, device = d, elems = xs\<rparr> s
         \<lparr>dtype = T, device = d, elems = zs\<rparr>
       = Inr \<lparr>dtype = T, device = d, elems = map (\<lambda>a. ArithmeticOps_Add ext a s) xs\<rparr>"
    unfolding kernel_shapes using assms by (intro ArrayScalar_Call_accept) simp_all
  show "MultiplyKernel_Call ext \<lparr>dtype = T, device = d, elems = xs\<rparr> \<lparr>dtype = T, device = d, elems = ys\<rparr>
         \<lparr>dtype = T, device = d, elems = zs\<rparr>
       = Inr \<lparr>dtype = T, device = d, elems = map (\<lambda>(a, b). ArithmeticOps_Multiply ext a b) (zip xs ys)\<rparr>"
    unfolding kernel_shapes using assms by (intro ELTWISE_DTYPE_BINARY_KERNEL_accept) simp_all
  show "NativeMultiplyASKernel_Call ext \<lparr>dtype = T, device = d, elems = xs\<rparr> s
         \<lparr>dtype = T, device = d, elems = zs\<rparr>
       = Inr \<lparr>dtype = T, device = d, elems = map (\<lambda>a. ArithmeticOps_Multiply ext a s) xs\<rparr>"
    unfolding kernel_shapes using assms by (intro ArrayScalar_Call_accept) simp_all
  show "DivideKernel_Call ext \<lparr>dtype = T, device = d, elems = xs\<rparr> \<lparr>dtype = T, device = d, elems = ys\<rparr>
         \<lparr>dtype = T, device = d, elems = zs\<rparr>
       = Inr \<lparr>dtype = T, device = d, elems = map (\<lambda>(a, b). ArithmeticOps_Divide ext a b) (zip xs ys)\<rparr>"
    unfolding kernel_shapes using assms by (intro ELTWISE_DTYPE_BINARY_KERNEL_accept) simp_all
  show "NativeDivideASKernel_Call ext \<lparr>dtype = T, device = d, elems = xs\<rparr> s
         \<lparr>dtype = T, device = d, elems = zs\<rparr>
       = Inr \<lparr>dtype = T, device = d, elems = map (\<lambda>a. ArithmeticOps_Divide ext a s) xs\<rparr>"
    unfolding kernel_shapes using assms by (intro ArrayScalar_Call_accept) simp_all
  show "NativeDivideSAKernel_Call ext s \<lparr>dtype = T, device = d, elems = xs\<rparr>
         \<lparr>dtype = T, device = d, elems = zs\<rparr>
       = Inr \<lparr>dtype = T, device = d, elems = map (\<lambda>b. ArithmeticOps_Divide ext s b) xs\<rparr>"
    unfolding kernel_shapes using assms by (intro ScalarArray_Call_accept) simp_all
qed

text \<open>
  The two halves at a one-element \<open>Bool\<close> tensor: Subtract and FloorDivide fail at the
  dispatch, Add and Multiply write their result.
\<close>

theorem numeric_dispatch_subsets_witness:
  "\<forall>ext.
     NativeSubtractASKernel_Call ext \<lparr>dtype = Bool, device = 0, elems = [BoolV True]\<rparr> (BoolV True)
         \<lparr>dtype = Bool, device = 0, elems = [BoolV False]\<rparr>
       = Inl (ContractViolation DtypeOutsideSubset) \<and>
     NativeFloorDivideASKernel_Call ext \<lparr>dtype = Bool, device = 0, elems = [BoolV True]\<rparr> (BoolV True)
         \<lparr>dtype = Bool, device = 0, elems = [BoolV False]\<rparr>
       = Inl (ContractViolation DtypeOutsideSubset) \<and>
     NativeAddASKernel_Call ext \<lparr>dtype = Bool, device = 0, elems = [BoolV True]\<rparr> (BoolV True)
         \<lparr>dtype = Bool, device = 0, elems = [BoolV False]\<rparr>
       = Inr \<lparr>dtype = Bool, device = 0, elems = [ArithmeticOps_Add ext (BoolV True) (BoolV True)]\<rparr> \<and>
     MultiplyKernel_Call ext \<lparr>dtype = Bool, device = 0, elems = [BoolV True]\<rparr>
         \<lparr>dtype = Bool, device = 0, elems = [BoolV False]\<rparr>
         \<lparr>dtype = Bool, device = 0, elems = [BoolV False]\<rparr>
       = Inr \<lparr>dtype = Bool, device = 0, elems = [ArithmeticOps_Multiply ext (BoolV True) (BoolV False)]\<rparr>"
proof
  fix ext
  have h: "dtype_of (BoolV True) = Bool" "length [BoolV True] = length [BoolV False]"
          "length [BoolV False] = length [BoolV False]"
    by simp_all
  show "NativeSubtractASKernel_Call ext \<lparr>dtype = Bool, device = 0, elems = [BoolV True]\<rparr> (BoolV True)
         \<lparr>dtype = Bool, device = 0, elems = [BoolV False]\<rparr>
       = Inl (ContractViolation DtypeOutsideSubset) \<and>
     NativeFloorDivideASKernel_Call ext \<lparr>dtype = Bool, device = 0, elems = [BoolV True]\<rparr> (BoolV True)
         \<lparr>dtype = Bool, device = 0, elems = [BoolV False]\<rparr>
       = Inl (ContractViolation DtypeOutsideSubset) \<and>
     NativeAddASKernel_Call ext \<lparr>dtype = Bool, device = 0, elems = [BoolV True]\<rparr> (BoolV True)
         \<lparr>dtype = Bool, device = 0, elems = [BoolV False]\<rparr>
       = Inr \<lparr>dtype = Bool, device = 0, elems = [ArithmeticOps_Add ext (BoolV True) (BoolV True)]\<rparr> \<and>
     MultiplyKernel_Call ext \<lparr>dtype = Bool, device = 0, elems = [BoolV True]\<rparr>
         \<lparr>dtype = Bool, device = 0, elems = [BoolV False]\<rparr>
         \<lparr>dtype = Bool, device = 0, elems = [BoolV False]\<rparr>
       = Inr \<lparr>dtype = Bool, device = 0, elems = [ArithmeticOps_Multiply ext (BoolV True) (BoolV False)]\<rparr>"
    using numeric_dispatch_subsets [OF h, of ext
        "\<lparr>dtype = Bool, device = 0, elems = [BoolV True]\<rparr>"
        "\<lparr>dtype = Bool, device = 0, elems = [BoolV True]\<rparr>"
        "\<lparr>dtype = Bool, device = 0, elems = [BoolV False]\<rparr>" "BoolV True" 0]
    by simp
qed

text \<open>
  C3 as stated fails for Divide: with a \<open>Bool\<close> output each of its three kernels writes
  a result and no contract is violated.
\<close>

theorem Divide_accepts_Bool_counterexample:
  "\<forall>ext.
     DivideKernel_Call ext \<lparr>dtype = Bool, device = 0, elems = [BoolV True]\<rparr>
         \<lparr>dtype = Bool, device = 0, elems = [BoolV True]\<rparr>
         \<lparr>dtype = Bool, device = 0, elems = [BoolV False]\<rparr>
       = Inr \<lparr>dtype = Bool, device = 0, elems = [ArithmeticOps_Divide ext (BoolV True) (BoolV True)]\<rparr> \<and>
     NativeDivideASKernel_Call ext \<lparr>dtype = Bool, device = 0, elems = [BoolV True]\<rparr> (BoolV True)
         \<lparr>dtype = Bool, device = 0, elems = [BoolV False]\<rparr>
       = Inr \<lparr>dtype = Bool, device = 0, elems = [ArithmeticOps_Divide ext (BoolV True) (BoolV True)]\<rparr> \<and>
     NativeDivideSAKernel_Call ext (BoolV True) \<lparr>dtype = Bool, device = 0, elems = [BoolV True]\<rparr>
         \<lparr>dtype = Bool, device = 0, elems = [BoolV False]\<rparr>
       = Inr \<lparr>dtype = Bool, device = 0, elems = [ArithmeticOps_Divide ext (BoolV True) (BoolV True)]\<rparr>"
  by (simp add: DivideKernel_Call_def NativeDivideASKernel_Call_def NativeDivideSAKernel_Call_def
      ELTWISE_BINARY_KERNEL_def ELTWISE_DTYPE_BINARY_KERNEL_def CheckDevicesCompatible_def
      Elementwise1_def Elementwise2_def Scalar_cast_def)

text \<open>
  C5. The bitwise kernels (BitwiseAnd, BitwiseOr, BitwiseXor; array-array and
  array-scalar) dispatch over the integral element types only: with a floating-point
  output each of them fails with a contract violation and computes nothing.
\<close>

theorem bitwise_reject_floating:
  assumes "T = Float16 \<or> T = Float32 \<or> T = Float64"
  shows
    "BitwiseAndKernel_Call ext x1 x2 (out\<lparr>dtype := T\<rparr>)
       = Inl (ContractViolation
             (if device x2 = device x1 \<and> device out = device x1
              then DtypeOutsideSubset else IncompatibleDevices)) \<and>
     NativeBitwiseAndASKernel_Call ext x1 c (out\<lparr>dtype := T\<rparr>)
       = Inl (ContractViolation
             (if device out = device x1 then DtypeOutsideSubset else IncompatibleDevices)) \<and>
     BitwiseOrKernel_Call ext x1 x2 (out\<lparr>dtype := T\<rparr>)
       = Inl (ContractViolation
             (if device x2 = device x1 \<and> device out = device x1
              then DtypeOutsideSubset else IncompatibleDevices)) \<and>
     NativeBitwiseOrASKernel_Call ext x1 c (out\<lparr>dtype := T\<rparr>)
       = Inl (ContractViolation
             (if device out = device x1 then DtypeOutsideSubset else IncompatibleDevices)) \<and>
     BitwiseXorKernel_Call ext x1 x2 (out\<lparr>dtype := T\<rparr>)
       = Inl (ContractViolation
             (if device x2 = device x1 \<and> device out = device x1
              then DtypeOutsideSubset else IncompatibleDevices)) \<and>
     NativeBitwiseXorASKernel_Call ext x1 c (out\<lparr>dtype := T\<rparr>)
       = Inl (ContractViolation
             (if device out = device x1 then DtypeOutsideSubset else IncompatibleDevices))"
proof -
  have v: "\<And>f :: Dtype \<Rightarrow> error + Array.
             VisitIntegralDtype T f = Inl (ContractViolation DtypeOutsideSubset)"
    using assms by (rule VisitIntegralDtype_floating)
  show ?thesis
    unfolding kernel_shapes
    by (intro conjI ELTWISE_DTYPE_BINARY_KERNEL_reject ArrayScalar_Call_reject v)
qed

text \<open>A \<open>Float32\<close> output, with a \<open>Float32\<close> and with an \<open>Int32\<close> input.\<close>

theorem bitwise_reject_floating_witness:
  "\<forall>ext.
     BitwiseAndKernel_Call ext \<lparr>dtype = Float32, device = 0, elems = [Float32V (Finite False 1)]\<rparr>
         \<lparr>dtype = Float32, device = 0, elems = [Float32V (Finite False 1)]\<rparr>
         \<lparr>dtype = Float32, device = 0, elems = [Float32V (Finite False 0)]\<rparr>
       = Inl (ContractViolation DtypeOutsideSubset) \<and>
     NativeBitwiseXorASKernel_Call ext \<lparr>dtype = Int32, device = 0, elems = [Int32V 5]\<rparr> (Int32V 3)
         \<lparr>dtype = Float32, device = 0, elems = [Float32V (Finite False 0)]\<rparr>
       = Inl (ContractViolation DtypeOutsideSubset)"
proof
  fix ext
  have h: "Float32 = Float16 \<or> Float32 = Float32 \<or> Float32 = Float64" by simp
  show "BitwiseAndKernel_Call ext \<lparr>dtype = Float32, device = 0, elems = [Float32V (Finite False 1)]\<rparr>
         \<lparr>dtype = Float32, device = 0, elems = [Float32V (Finite False 1)]\<rparr>
         \<lparr>dtype = Float32, device = 0, elems = [Float32V (Finite False 0)]\<rparr>
       = Inl (ContractViolation DtypeOutsideSubset) \<and>
     NativeBitwiseXorASKernel_Call ext \<lparr>dtype = Int32, device = 0, elems = [Int32V 5]\<rparr> (Int32V 3)
         \<lparr>dtype = Float32, device = 0, elems = [Float32V (Finite False 0)]\<rparr>
       = Inl (ContractViolation DtypeOutsideSubset)"
    using bitwise_reject_floating [OF h, of ext
        "\<lparr>dtype = Float32, device = 0, elems = [Float32V (Finite False 1)]\<rparr>"
        "\<lparr>dtype = Float32, device = 0, elems = [Float32V (Finite False 1)]\<rparr>"
        "\<lparr>dtype = Float32, device = 0, elems = [Float32V (Finite False 0)]\<rparr>"]
      bitwise_reject_floating [OF h, of ext
        "\<lparr>dtype = Int32, device = 0, elems = [Int32V 5]\<rparr>"
        "\<lparr>dtype = Int32, device = 0, elems = [Int32V 5]\<rparr>"
        "\<lparr>dtype = Float32, device = 0, elems = [Float32V (Finite False 0)]\<rparr>" "Int32V 3"]
    by simp
qed

text \<open>
  C7. For each of the eight operators, an element type \<open>T\<close> and values \<open>x1\<close>, \<open>x2\<close>
  of that type, the array-scalar kernel on the one-element tensor of \<open>x1\<close> with the
  scalar \<open>x2\<close> returns what the array-array kernel returns on the one-element tensors
  of \<open>x1\<close> and of \<open>x2\<close>; so do the two scalar-array kernels with the scalar \<open>x1\<close>.
\<close>

theorem scalar_kernel_consistent:
  assumes "dtype_of x1 = T" and "dtype_of x2 = T"
  shows
    "NativeAddASKernel_Call ext \<lparr>dtype = T, device = d, elems = [x1]\<rparr> x2
         \<lparr>dtype = T, device = d, elems = [z]\<rparr>
       = AddKernel_Call ext \<lparr>dtype = T, device = d, elems = [x1]\<rparr>
           \<lparr>dtype = T, device = d, elems = [x2]\<rparr> \<lparr>dtype = T, device = d, elems = [z]\<rparr> \<and>
     NativeSubtractASKernel_Call ext \<lparr>dtype = T, device = d, elems = [x1]\<rparr> x2
         \<lparr>dtype = T, device = d, elems = [z]\<rparr>
       = SubtractKernel_Call ext \<lparr>dtype = T, device = d, elems = [x1]\<rparr>
           \<lparr>dtype = T, device = d, elems = [x2]\<rparr> \<lparr>dtype = T, device = d, elems = [z]\<rparr> \<and>
     NativeMultiplyASKernel_Call ext \<lparr>dtype = T, device = d, elems = [x1]\<rparr> x2
         \<lparr>dtype = T, device = d, elems = [z]\<rparr>
       = MultiplyKernel_Call ext \<lparr>dtype = T, device = d, elems = [x1]\<rparr>
           \<lparr>dtype = T, device = d, elems = [x2]\<rparr> \<lparr>dtype = T, device = d, elems = [z]\<rparr> \<and>
     NativeFloorDivideASKernel_Call ext \<lparr>dtype = T, device = d, elems = [x1]\<rparr> x2
         \<lparr>dtype = T, device = d, elems = [z]\<rparr>
       = FloorDivideKernel_Call ext \<lparr>dtype = T, device = d, elems = [x1]\<rparr>
           \<lparr>dtype = T, device = d, elems = [x2]\<rparr> \<lparr>dtype = T, device = d, elems = [z]\<rparr> \<and>
     NativeDivideASKernel_Call ext \<lparr>dtype = T, device = d, elems = [x1]\<rparr> x2
         \<lparr>dtype = T, device = d, elems = [z]\<rparr>
       = DivideKernel_Call ext \<lparr>dtype = T, device = d, elems = [x1]\<rparr>
           \<lparr>dtype = T, device = d, elems = [x2]\<rparr> \<lparr>dtype = T, device = d, elems = [z]\<rparr> \<and>
     NativeBitwiseAndASKernel_Call ext \<lparr>dtype = T, device = d, elems = [x1]\<rparr> x2
         \<lparr>dtype = T, device = d, elems = [z]\<rparr>
       = BitwiseAndKernel_Call ext \<lparr>dtype = T, device = d, elems = [x1]\<rparr>
           \<lparr>dtype = T, device = d, elems = [x2]\<rparr> \<lparr>dtype = T, device = d, elems = [z]\<rparr> \<and>
     NativeBitwiseOrASKernel_Call ext \<lparr>dtype = T, device = d, elems = [x1]\<rparr> x2
         \<lparr>dtype = T, device = d, elems = [z]\<rparr>
       = BitwiseOrKernel_Call ext \<lparr>dtype = T, device = d, elems = [x1]\<rparr>
           \<lparr>dtype = T, device = d, elems = [x2]\<rparr> \<lparr>dtype = T, device = d, elems = [z]\<rparr> \<and>
     NativeBitwiseXorASKernel_Call ext \<lparr>dtype = T, device = d, elems = [x1]\<rparr> x2
         \<lparr>dtype = T, device = d, elems = [z]\<rparr>
       = BitwiseXorKernel_Call ext \<lparr>dtype = T, device = d, elems = [x1]\<rparr>
           \<lparr>dtype = T, device = d, elems = [x2]\<rparr> \<lparr>dtype = T, device = d, elems = [z]\<rparr> \<and>
     NativeFloorDivideSAKernel_Call ext x1 \<lparr>dtype = T, device = d, elems = [x2]\<rparr>
         \<lparr>dtype = T, device = d, elems = [z]\<rparr>
       = FloorDivideKernel_Call ext \<lparr>dtype = T, device = d, elems = [x1]\<rparr>
           \<lparr>dtype = T, device = d, elems = [x2]\<rparr> \<lparr>dtype = T, device = d, elems = [z]\<rparr> \<and>
     NativeDivideSAKernel_Call ext x1 \<lparr>dtype = T, device = d, elems = [x2]\<rparr>
         \<lparr>dtype = T, device = d, elems = [z]\<rparr>
       = DivideKernel_Call ext \<lparr>dtype = T, device = d, elems = [x1]\<rparr>
           \<lparr>dtype = T, device = d, elems = [x2]\<rparr> \<lparr>dtype = T, device = d, elems = [z]\<rparr>"
  unfolding kernel_shapes
  by (intro conjI scalar_right_VisitDtype scalar_right_VisitNumericDtype
      scalar_right_VisitIntegralDtype scalar_left_VisitDtype scalar_left_VisitNumericDtype assms)

text \<open>
  At \<open>Int32\<close> with \<open>x1 = -7\<close> and \<open>x2 = 2\<close>: the three FloorDivide kernels write \<open>-4\<close>.
\<close>

theorem scalar_kernel_consistent_witness:
  "\<forall>ext.
     NativeFloorDivideASKernel_Call ext \<lparr>dtype = Int32, device = 0, elems = [Int32V (- 7)]\<rparr> (Int32V 2)
         \<lparr>dtype = Int32, device = 0, elems = [Int32V 0]\<rparr>
       = FloorDivideKernel_Call ext \<lparr>dtype = Int32, device = 0, elems = [Int32V (- 7)]\<rparr>
           \<lparr>dtype = Int32, device = 0, elems = [Int32V 2]\<rparr>
           \<lparr>dtype = Int32, device = 0, elems = [Int32V 0]\<rparr> \<and>
     NativeFloorDivideSAKernel_Call ext (Int32V (- 7)) \<lparr>dtype = Int32, device = 0, elems = [Int32V 2]\<rparr>
         \<lparr>dtype = Int32, device = 0, elems = [Int32V 0]\<rparr>
       = FloorDivideKernel_Call ext \<lparr>dtype = Int32, device = 0, elems = [Int32V (- 7)]\<rparr>
           \<lparr>dtype = Int32, device = 0, elems = [Int32V 2]\<rparr>
           \<lparr>dtype = Int32, device = 0, elems = [Int32V 0]\<rparr> \<and>
     FloorDivideKernel_Call ext \<lparr>dtype = Int32, device = 0, elems = [Int32V (- 7)]\<rparr>
           \<lparr>dtype = Int32, device = 0, elems = [Int32V 2]\<rparr>
           \<lparr>dtype = Int32, device = 0, elems = [Int32V 0]\<rparr>
       = Inr \<lparr>dtype = Int32, device = 0, elems = [Int32V (- 4)]\<rparr> \<and>
     NativeBitwiseAndASKernel_Call ext \<lparr>dtype = Int32, device = 0, elems = [Int32V (- 7)]\<rparr> (Int32V 2)
         \<lparr>dtype = Int32, device = 0, elems = [Int32V 0]\<rparr>
       = BitwiseAndKernel_Call ext \<lparr>dtype = Int32, device = 0, elems = [Int32V (- 7)]\<rparr>
           \<lparr>dtype = Int32, device = 0, elems = [Int32V 2]\<rparr>
           \<lparr>dtype = Int32, device = 0, elems = [Int32V 0]\<rparr> \<and>
     NativeAddASKernel_Call ext \<lparr>dtype = Int32, device = 0, elems = [Int32V (- 7)]\<rparr> (Int32V 2)
         \<lparr>dtype = Int32, device = 0, elems = [Int32V 0]\<rparr>
       = AddKernel_Call ext \<lparr>dtype = Int32, device = 0, elems = [Int32V (- 7)]\<rparr>
           \<lparr>dtype = Int32, device = 0, elems = [Int32V 2]\<rparr>
           \<lparr>dtype = Int32, device = 0, elems = [Int32V 0]\<rparr>"
proof
  fix ext
  have h: "dtype_of (Int32V (- 7)) = Int32" "dtype_of (Int32V 2) = Int32" by simp_all
  have r: "FloorDivideKernel_Call ext \<lparr>dtype = Int32, device = 0, elems = [Int32V (- 7)]\<rparr>
           \<lparr>dtype = Int32, device = 0, elems = [Int32V 2]\<rparr>
           \<lparr>dtype = Int32, device = 0, elems = [Int32V 0]\<rparr>
       = Inr \<lparr>dtype = Int32, device = 0, elems = [Int32V (- 4)]\<rparr>"
    by (simp add: FloorDivideKernel_Call_def ELTWISE_DTYPE_BINARY_KERNEL_def
        CheckDevicesCompatible_def Elementwise2_def lift_int_def int_eval)
  show "NativeFloorDivideASKernel_Call ext \<lparr>dtype = Int32, device = 0, elems = [Int32V (- 7)]\<rparr> (Int32V 2)
         \<lparr>dtype = Int32, device = 0, elems = [Int32V 0]\<rparr>
       = FloorDivideKernel_Call ext \<lparr>dtype = Int32, device = 0, elems = [Int32V (- 7)]\<rparr>
           \<lparr>dtype = Int32, device = 0, elems = [Int32V 2]\<rparr>
           \<lparr>dtype = Int32, device = 0, elems = [Int32V 0]\<rparr> \<and>
     NativeFloorDivideSAKernel_Call ext (Int32V (- 7)) \<lparr>dtype = Int32, device = 0, elems = [Int32V 2]\<rparr>
         \<lparr>dtype = Int32, device = 0, elems = [Int32V 0]\<rparr>
       = FloorDivideKernel_Call ext \<lparr>dtype = Int32, device = 0, elems = [Int32V (- 7)]\<rparr>
           \<lparr>dtype = Int32, device = 0, elems = [Int32V 2]\<rparr>
           \<lparr>dtype = Int32, device = 0, elems = [Int32V 0]\<rparr> \<and>
     FloorDivideKernel_Call ext \<lparr>dtype = Int32, device = 0, elems = [Int32V (- 7)]\<rparr>
           \<lparr>dtype = Int32, device = 0, elems = [Int32V 2]\<rparr>
           \<lparr>dtype = Int32, device = 0, elems = [Int32V 0]\<rparr>
       = Inr \<lparr>dtype = Int32, device = 0, elems = [Int32V (- 4)]\<rparr> \<and>
     NativeBitwiseAndASKernel_Call ext \<lparr>dtype = Int32, device = 0, elems = [Int32V (- 7)]\<rparr> (Int32V 2)
         \<lparr>dtype = Int32, device = 0, elems = [Int32V 0]\<rparr>
       = BitwiseAndKernel_Call ext \<lparr>dtype = Int32, device = 0, elems = [Int32V (- 7)]\<rparr>
           \<lparr>dtype = Int32, device = 0, elems = [Int32V 2]\<rparr>
           \<lparr>dtype = Int32, device = 0, elems = [Int32V 0]\<rparr> \<and>
     NativeAddASKernel_Call ext \<lparr>dtype = Int32, device = 0, elems = [Int32V (- 7)]\<rparr> (Int32V 2)
         \<lparr>dtype = Int32, device = 0, elems = [Int32V 0]\<rparr>
       = AddKernel_Call ext \<lparr>dtype = Int32, device = 0, elems = [Int32V (- 7)]\<rparr>
           \<lparr>dtype = Int32, device = 0, elems = [Int32V 2]\<rparr>
           \<lparr>dtype = Int32, device = 0, elems = [Int32V 0]\<rparr>"
    using scalar_kernel_consistent [OF h, of ext 0 "Int32V 0"] r by simp
qed

text \<open>
  C8. The FloorDivide array-scalar kernel on the \<open>Int32\<close> tensor \<open>[7, -7, 7, -7]\<close> with
  the scalar \<open>2\<close> and an \<open>Int32\<close> output writes \<open>[3, -4, 3, -4]\<close>; on the \<open>UInt8\<close>
  tensor \<open>[5]\<close> with the scalar \<open>0\<close> and a \<open>UInt8\<close> output it writes \<open>[0]\<close>. The
  scalar is given at the type of the output and as a 64-bit integer.
\<close>

theorem FloorDivideAS_scenarios:
  "NativeFloorDivideASKernel_Call ext
     \<lparr>dtype = Int32, device = d, elems = [Int32V 7, Int32V (- 7), Int32V 7, Int32V (- 7)]\<rparr>
     (Int32V 2)
     \<lparr>dtype = Int32, device = d, elems = [o1, o2, o3, o4]\<rparr>
   = Inr \<lparr>dtype = Int32, device = d, elems = [Int32V 3, Int32V (- 4), Int32V 3, Int32V (- 4)]\<rparr> \<and>
   NativeFloorDivideASKernel_Call ext
     \<lparr>dtype = Int32, device = d, elems = [Int32V 7, Int32V (- 7), Int32V 7, Int32V (- 7)]\<rparr>
     (Int64V 2)
     \<lparr>dtype = Int32, device = d, elems = [o1, o2, o3, o4]\<rparr>
   = Inr \<lparr>dtype = Int32, device = d, elems = [Int32V 3, Int32V (- 4), Int32V 3, Int32V (- 4)]\<rparr> \<and>
   NativeFloorDivideASKernel_Call ext
     \<lparr>dtype = UInt8, device = d, elems = [UInt8V 5]\<rparr>
     (UInt8V 0)
     \<lparr>dtype = UInt8, device = d, elems = [o1]\<rparr>
   = Inr \<lparr>dtype = UInt8, device = d, elems = [UInt8V 0]\<rparr> \<and>
   NativeFloorDivideASKernel_Call ext
     \<lparr>dtype = UInt8, device = d, elems = [UInt8V 5]\<rparr>
     (Int64V 0)
     \<lparr>dtype = UInt8, device = d, elems = [o1]\<rparr>
   = Inr \<lparr>dtype = UInt8, device = d, elems = [UInt8V 0]\<rparr>"
  by (simp add: NativeFloorDivideASKernel_Call_def CheckDevicesCompatible_def
      Elementwise1_def Scalar_cast_def lift_int_def FloorDivide_uint8_def int_eval)

end
